theory Spec2Isabelle
  imports Complex_Main "HOL-Library.Word"
begin

unbundle bit_operations_syntax

section \<open>Machine types of the NTP client\<close>

text \<open>
  The client (\<^verbatim>\<open>src/ntp_client.c\<close>) is modelled for an LP64 target: \<^verbatim>\<open>time_t\<close>,
  \<^verbatim>\<open>int64_t\<close> and \<^verbatim>\<open>unsigned long\<close> are 64-bit words, \<^verbatim>\<open>uint32_t\<close> is a
  32-bit word, \<^verbatim>\<open>uint8_t\<close> an 8-bit word. Signed values are read with \<open>sint\<close>;
  addition and subtraction wrap around.
\<close>

type_synonym uint8_t = "8 word"
type_synonym uint16_t = "16 word"
type_synonym uint32_t = "32 word"
type_synonym int64_t = "64 word"
type_synonym time_t = "64 word"

section \<open>Time conversions\<close>

text \<open>\<^verbatim>\<open>#define NTP_TIMESTAMP_DELTA 2208988800UL\<close>: an \<^verbatim>\<open>unsigned long\<close> constant.\<close>

definition NTP_TIMESTAMP_DELTA :: "64 word" where
  "NTP_TIMESTAMP_DELTA = 2208988800"

text \<open>
  \<^verbatim>\<open>return ntp_seconds - NTP_TIMESTAMP_DELTA;\<close>: the 32-bit argument is promoted to
  \<^verbatim>\<open>unsigned long\<close>, the subtraction is done on 64 bits and the result is converted
  to \<^verbatim>\<open>time_t\<close>.
\<close>

definition ntp_time_to_unix_time :: "uint32_t \<Rightarrow> time_t" where
  "ntp_time_to_unix_time ntp_seconds = ucast ntp_seconds - NTP_TIMESTAMP_DELTA"

text \<open>
  \<^verbatim>\<open>return unix_seconds + NTP_TIMESTAMP_DELTA;\<close>: the sum is computed on 64 bits and
  truncated to the \<^verbatim>\<open>uint32_t\<close> return type.
\<close>

definition unix_time_to_ntp_time :: "time_t \<Rightarrow> uint32_t" where
  "unix_time_to_ntp_time unix_seconds = ucast (unix_seconds + NTP_TIMESTAMP_DELTA)"

section \<open>Status codes, configuration and client state\<close>

text \<open>\<^verbatim>\<open>ntp_status_t\<close> of \<^verbatim>\<open>src/ntp_client.h\<close>, all six enumerators.\<close>

datatype ntp_status_t =
    NTP_OK
  | NTP_ERROR_NETWORK
  | NTP_ERROR_TIMEOUT
  | NTP_ERROR_SERVER
  | NTP_ERROR_INVALID_PARAM
  | NTP_ERROR_NOT_INIT

text \<open>\<^verbatim>\<open>ntp_config_t\<close>; \<open>server_name\<close> is the contents of the \<^verbatim>\<open>char[256]\<close> array.\<close>

record ntp_config_t =
  server_name :: "uint8_t list"
  server_port :: uint16_t
  timeout_ms :: uint32_t
  retry_count :: uint32_t
  sync_interval :: uint32_t

text \<open>
  \<^verbatim>\<open>ntp_client_state_t\<close>. The mutex field is not part of the sequential state; the
  order of lock, unlock and blocking calls is modelled separately as an event trace.
\<close>

record ntp_client_state_t =
  initialized :: bool
  ever_synced :: bool
  config :: ntp_config_t
  last_sync_time :: time_t
  ntp_time :: time_t
  time_offset :: int64_t

text \<open>\<^verbatim>\<open>struct timeval\<close> as filled in by \<^verbatim>\<open>gettimeofday\<close>.\<close>

record timeval =
  tv_sec :: time_t
  tv_usec :: "64 word"

section \<open>The packet and its memory image\<close>

record ntp_packet_t =
  li_vn_mode :: uint8_t
  stratum :: uint8_t
  poll :: uint8_t
  precision :: uint8_t
  root_delay :: uint32_t
  root_dispersion :: uint32_t
  ref_id :: uint32_t
  ref_timestamp_sec :: uint32_t
  ref_timestamp_frac :: uint32_t
  orig_timestamp_sec :: uint32_t
  orig_timestamp_frac :: uint32_t
  recv_timestamp_sec :: uint32_t
  recv_timestamp_frac :: uint32_t
  tx_timestamp_sec :: uint32_t
  tx_timestamp_frac :: uint32_t

text \<open>
  \<^verbatim>\<open>recvfrom\<close> writes the bytes of the datagram over the memory of the struct, so the
  model needs the struct's 48-byte image. The host is little-endian: a 32-bit field is
  stored least significant byte first, and \<^verbatim>\<open>ntohl\<close> reverses the four bytes.
\<close>

definition store32 :: "uint32_t \<Rightarrow> uint8_t list" where
  "store32 w = [ucast w, ucast (drop_bit 8 w), ucast (drop_bit 16 w), ucast (drop_bit 24 w)]"

definition load32 :: "uint8_t list \<Rightarrow> nat \<Rightarrow> uint32_t" where
  "load32 mem off =
     ucast (mem ! off) OR push_bit 8 (ucast (mem ! (off + 1)))
       OR push_bit 16 (ucast (mem ! (off + 2))) OR push_bit 24 (ucast (mem ! (off + 3)))"

definition ntohl :: "uint32_t \<Rightarrow> uint32_t" where
  "ntohl w =
     push_bit 24 (w AND 0xFF) OR push_bit 8 (w AND 0xFF00)
       OR (drop_bit 8 w AND 0xFF00) OR drop_bit 24 w"

definition packet_bytes :: "ntp_packet_t \<Rightarrow> uint8_t list" where
  "packet_bytes p =
     [li_vn_mode p, stratum p, poll p, precision p]
       @ store32 (root_delay p) @ store32 (root_dispersion p) @ store32 (ref_id p)
       @ store32 (ref_timestamp_sec p) @ store32 (ref_timestamp_frac p)
       @ store32 (orig_timestamp_sec p) @ store32 (orig_timestamp_frac p)
       @ store32 (recv_timestamp_sec p) @ store32 (recv_timestamp_frac p)
       @ store32 (tx_timestamp_sec p) @ store32 (tx_timestamp_frac p)"

definition bytes_packet :: "uint8_t list \<Rightarrow> ntp_packet_t" where
  "bytes_packet mem =
     \<lparr> li_vn_mode = mem ! 0, stratum = mem ! 1, poll = mem ! 2, precision = mem ! 3,
       root_delay = load32 mem 4, root_dispersion = load32 mem 8, ref_id = load32 mem 12,
       ref_timestamp_sec = load32 mem 16, ref_timestamp_frac = load32 mem 20,
       orig_timestamp_sec = load32 mem 24, orig_timestamp_frac = load32 mem 28,
       recv_timestamp_sec = load32 mem 32, recv_timestamp_frac = load32 mem 36,
       tx_timestamp_sec = load32 mem 40, tx_timestamp_frac = load32 mem 44 \<rparr>"

text \<open>
  \<^verbatim>\<open>recvfrom(sockfd, response, sizeof(ntp_packet_t), ...)\<close> delivering the datagram
  \<open>d\<close>: at most 48 bytes are written, from the start of the struct; the bytes behind
  them keep what the struct held before the call.
\<close>

definition recvfrom_into :: "ntp_packet_t \<Rightarrow> uint8_t list \<Rightarrow> ntp_packet_t" where
  "recvfrom_into response d =
     bytes_packet (take 48 d @ drop (length (take 48 d)) (packet_bytes response))"

section \<open>One request and response exchange\<close>

text \<open>
  What the operating system answers during one call of \<^verbatim>\<open>send_ntp_request\<close>: the
  return values of the system calls in the order the function makes them. For
  \<^verbatim>\<open>recvfrom\<close>, \<open>None\<close> is the return value \<open>-1\<close> and \<open>Some d\<close> is the delivery of
  the datagram \<open>d\<close> (return value \<open>min (length d) 48\<close>, never negative).
  The server name, port and timeout only reach the operating system, whose answers
  are given here.
\<close>

record syscalls =
  socket_ret :: int
  setsockopt_ret :: int
  getaddrinfo_ret :: int
  inet_ntop_ok :: bool
  inet_pton_ret :: int
  sendto_ret :: int
  select_ret :: int
  recvfrom_ret :: "uint8_t list option"

definition resolve_hostname :: "syscalls \<Rightarrow> bool" where
  "resolve_hostname sys =
     (if getaddrinfo_ret sys \<noteq> 0 then False
      else if \<not> inet_ntop_ok sys then False
      else True)"

definition send_ntp_request :: "syscalls \<Rightarrow> ntp_packet_t \<Rightarrow> ntp_status_t \<times> ntp_packet_t" where
  "send_ntp_request sys response =
     (if socket_ret sys < 0 then (NTP_ERROR_NETWORK, response)
      else if setsockopt_ret sys < 0 then (NTP_ERROR_NETWORK, response)
      else if \<not> resolve_hostname sys then (NTP_ERROR_NETWORK, response)
      else if inet_pton_ret sys \<le> 0 then (NTP_ERROR_NETWORK, response)
      else if sendto_ret sys < 0 then (NTP_ERROR_NETWORK, response)
      else if select_ret sys < 0 then (NTP_ERROR_NETWORK, response)
      else if select_ret sys = 0 then (NTP_ERROR_TIMEOUT, response)
      else case recvfrom_ret sys of
        None \<Rightarrow> (NTP_ERROR_NETWORK, response)
      | Some d \<Rightarrow>
          (let r = recvfrom_into response d
           in (NTP_OK,
               r\<lparr> recv_timestamp_sec := ntohl (recv_timestamp_sec r),
                  recv_timestamp_frac := ntohl (recv_timestamp_frac r),
                  tx_timestamp_sec := ntohl (tx_timestamp_sec r),
                  tx_timestamp_frac := ntohl (tx_timestamp_frac r) \<rparr>)))"

text \<open>The status of an exchange does not depend on what the struct held before.\<close>

definition zero_packet :: ntp_packet_t where
  "zero_packet = bytes_packet (replicate 48 0)"

definition exchange_status :: "syscalls \<Rightarrow> ntp_status_t" where
  "exchange_status sys = fst (send_ntp_request sys zero_packet)"

section \<open>Initialisation and the synchronisation loop\<close>

text \<open>
  \<^verbatim>\<open>ntp_init\<close>: \<open>None\<close> is the null pointer; \<open>mutex_init_ret\<close> is what
  \<^verbatim>\<open>pthread_mutex_init\<close> returns.
\<close>

definition ntp_init ::
  "ntp_config_t option \<Rightarrow> int \<Rightarrow> ntp_client_state_t \<Rightarrow> ntp_status_t \<times> ntp_client_state_t" where
  "ntp_init cfg mutex_init_ret s =
     (case cfg of
        None \<Rightarrow> (NTP_ERROR_INVALID_PARAM, s)
      | Some c \<Rightarrow>
          if mutex_init_ret \<noteq> 0 then (NTP_ERROR_NETWORK, s)
          else (NTP_OK,
                s\<lparr> config := c, initialized := True, ever_synced := False,
                   last_sync_time := 0, ntp_time := 0, time_offset := 0 \<rparr>))"

definition ntp_cleanup :: "ntp_client_state_t \<Rightarrow> ntp_client_state_t" where
  "ntp_cleanup s = s\<lparr> initialized := False \<rparr>"

text \<open>
  The \<^verbatim>\<open>do ... while\<close> loop of \<^verbatim>\<open>ntp_sync\<close>. \<open>net k\<close> is what the operating system
  answers during the call of \<^verbatim>\<open>send_ntp_request\<close> made when \<open>attempts\<close> is \<open>k\<close>. The
  result is the last status, the struct \<open>response\<close> and the final value of
  \<open>attempts\<close>, which counts the calls of \<^verbatim>\<open>send_ntp_request\<close>.
\<close>

function ntp_sync_loop ::
  "uint32_t \<Rightarrow> (nat \<Rightarrow> syscalls) \<Rightarrow> ntp_packet_t \<Rightarrow> uint32_t
     \<Rightarrow> ntp_status_t \<times> ntp_packet_t \<times> uint32_t" where
  "ntp_sync_loop retry net response attempts =
     (case send_ntp_request (net (unat attempts)) response of
        (status, response') \<Rightarrow>
          if status \<noteq> NTP_OK \<and> attempts + 1 < retry
          then ntp_sync_loop retry net response' (attempts + 1)
          else (status, response', attempts + 1))"
  by pat_completeness auto
termination
proof (relation "measure (\<lambda>(retry, net, response, attempts). unat (retry - (attempts + 1)))")
  show "wf (measure (\<lambda>(retry, net, response, attempts). unat (retry - (attempts + 1))))"
    by simp
next
  fix retry :: uint32_t and net :: "nat \<Rightarrow> syscalls" and response :: ntp_packet_t
    and attempts :: uint32_t and x :: "ntp_status_t \<times> ntp_packet_t"
    and status :: ntp_status_t and response' :: ntp_packet_t
  assume "status \<noteq> NTP_OK \<and> attempts + 1 < retry"
  then have lt: "attempts + 1 < retry" by simp
  define x where "x = retry - (attempts + 1)"
  have nz: "x \<noteq> 0" using lt by (auto simp: x_def)
  have e: "retry - (attempts + 1 + 1) = x - 1" by (simp add: x_def)
  have "unat (x - 1) = unat x - 1" by (rule unat_minus_one [OF nz])
  moreover have "0 < unat x" using nz by (simp add: unat_gt_0)
  ultimately have "unat (x - 1) < unat x" by simp
  then have "unat (retry - (attempts + 1 + 1)) < unat (retry - (attempts + 1))"
    by (simp only: e x_def [symmetric])
  then show "((retry, net, response', attempts + 1), (retry, net, response, attempts))
      \<in> measure (\<lambda>(retry, net, response, attempts). unat (retry - (attempts + 1)))"
    by simp
qed

declare ntp_sync_loop.simps [simp del]

text \<open>
  What \<^verbatim>\<open>ntp_sync\<close> meets outside the client state: the answers of the operating
  system to each exchange, the contents of the uninitialised local \<open>response\<close> on
  entry, and the reading of \<^verbatim>\<open>gettimeofday\<close> taken after validation.
\<close>

record sync_world =
  exchange :: "nat \<Rightarrow> syscalls"
  stack_response :: ntp_packet_t
  local_time :: timeval

definition ntp_sync :: "sync_world \<Rightarrow> ntp_client_state_t \<Rightarrow> ntp_status_t \<times> ntp_client_state_t" where
  "ntp_sync w s =
     (if \<not> initialized s then (NTP_ERROR_NOT_INIT, s)
      else case ntp_sync_loop (retry_count (config s)) (exchange w) (stack_response w) 0 of
        (status, response, attempts) \<Rightarrow>
          if status \<noteq> NTP_OK then (status, s)
          else if li_vn_mode response AND 0x07 \<noteq> 4 \<and> li_vn_mode response AND 0x07 \<noteq> 2
            then (NTP_ERROR_SERVER, s)
          else if stratum response = 0 \<or> stratum response \<ge> 16
            then (NTP_ERROR_SERVER, s)
          else
            (let server_time = ntp_time_to_unix_time (tx_timestamp_sec response);
                 current_time = tv_sec (local_time w)
             in (NTP_OK,
                 s\<lparr> time_offset := server_time - current_time,
                    last_sync_time := current_time,
                    ntp_time := server_time,
                    ever_synced := True \<rparr>)))"

text \<open>The number of exchanges one call of \<^verbatim>\<open>ntp_sync\<close> makes, and the struct it reads.\<close>

definition ntp_sync_attempts :: "sync_world \<Rightarrow> ntp_client_state_t \<Rightarrow> nat" where
  "ntp_sync_attempts w s =
     (if \<not> initialized s then 0
      else unat (snd (snd (ntp_sync_loop (retry_count (config s)) (exchange w) (stack_response w) 0))))"

definition ntp_sync_response :: "sync_world \<Rightarrow> ntp_client_state_t \<Rightarrow> ntp_packet_t" where
  "ntp_sync_response w s =
     fst (snd (ntp_sync_loop (retry_count (config s)) (exchange w) (stack_response w) 0))"


section \<open>The order of locking and blocking calls in \<^verbatim>\<open>ntp_sync\<close>\<close>

text \<open>
  The calls of \<^verbatim>\<open>pthread_mutex_lock\<close>, \<^verbatim>\<open>pthread_mutex_unlock\<close>,
  \<^verbatim>\<open>send_ntp_request\<close> (which resolves the name, sends and waits for the answer) and
  \<^verbatim>\<open>usleep\<close>, in the order \<^verbatim>\<open>ntp_sync\<close> makes them.
\<close>

datatype event = Lock | Unlock | Network_IO | Sleep

function ntp_sync_loop_events ::
  "uint32_t \<Rightarrow> (nat \<Rightarrow> syscalls) \<Rightarrow> ntp_packet_t \<Rightarrow> uint32_t \<Rightarrow> event list" where
  "ntp_sync_loop_events retry net response attempts =
     (case send_ntp_request (net (unat attempts)) response of
        (status, response') \<Rightarrow>
          Network_IO #
            (if status \<noteq> NTP_OK \<and> attempts + 1 < retry
             then [Unlock, Sleep, Lock] @ ntp_sync_loop_events retry net response' (attempts + 1)
             else []))"
  by pat_completeness auto
termination
proof (relation "measure (\<lambda>(retry, net, response, attempts). unat (retry - (attempts + 1)))")
  show "wf (measure (\<lambda>(retry, net, response, attempts). unat (retry - (attempts + 1))))"
    by simp
next
  fix retry :: uint32_t and net :: "nat \<Rightarrow> syscalls" and response :: ntp_packet_t
    and attempts :: uint32_t and x :: "ntp_status_t \<times> ntp_packet_t"
    and status :: ntp_status_t and response' :: ntp_packet_t
  assume "status \<noteq> NTP_OK \<and> attempts + 1 < retry"
  then have lt: "attempts + 1 < retry" by simp
  define y where "y = retry - (attempts + 1)"
  have nz: "y \<noteq> 0" using lt by (auto simp: y_def)
  have e: "retry - (attempts + 1 + 1) = y - 1" by (simp add: y_def)
  have "unat (y - 1) = unat y - 1" by (rule unat_minus_one [OF nz])
  moreover have "0 < unat y" using nz by (simp add: unat_gt_0)
  ultimately have "unat (y - 1) < unat y" by simp
  then have "unat (retry - (attempts + 1 + 1)) < unat (retry - (attempts + 1))"
    by (simp only: e y_def [symmetric])
  then show "((retry, net, response', attempts + 1), (retry, net, response, attempts))
      \<in> measure (\<lambda>(retry, net, response, attempts). unat (retry - (attempts + 1)))"
    by simp
qed

declare ntp_sync_loop_events.simps [simp del]

text \<open>
  \<^verbatim>\<open>ntp_sync\<close> locks on entry; every \<^verbatim>\<open>return\<close> is preceded by one unlock.
\<close>

definition ntp_sync_events :: "sync_world \<Rightarrow> ntp_client_state_t \<Rightarrow> event list" where
  "ntp_sync_events w s =
     Lock #
       (if \<not> initialized s then [Unlock]
        else ntp_sync_loop_events (retry_count (config s)) (exchange w) (stack_response w) 0
               @ [Unlock])"

text \<open>Whether some network call of the trace is made while the lock is held.\<close>

fun io_while_locked :: "bool \<Rightarrow> event list \<Rightarrow> bool" where
  "io_while_locked held [] = False"
| "io_while_locked held (Lock # es) = io_while_locked True es"
| "io_while_locked held (Unlock # es) = io_while_locked False es"
| "io_while_locked held (Network_IO # es) = (held \<or> io_while_locked held es)"
| "io_while_locked held (Sleep # es) = io_while_locked held es"

section \<open>Queries on the client state\<close>

text \<open>Each query takes the reading of \<^verbatim>\<open>gettimeofday\<close> it would make.\<close>

definition ntp_getCurrentTime :: "ntp_client_state_t \<Rightarrow> timeval \<Rightarrow> time_t" where
  "ntp_getCurrentTime s current_time =
     (if \<not> initialized s \<or> \<not> ever_synced s then 0
      else tv_sec current_time + time_offset s)"

definition ntp_getTimeSinceLastSync :: "ntp_client_state_t \<Rightarrow> timeval \<Rightarrow> int64_t" where
  "ntp_getTimeSinceLastSync s current_time =
     (if \<not> initialized s \<or> \<not> ever_synced s then - 1
      else tv_sec current_time - last_sync_time s)"

definition ntp_hasEverSynced :: "ntp_client_state_t \<Rightarrow> bool" where
  "ntp_hasEverSynced s = (initialized s \<and> ever_synced s)"

text \<open>
  Memory as a C string function reads it: the bytes from a pointer on, by index. It
  has no end, since \<^verbatim>\<open>strncpy\<close> stops only at a null byte or after \<open>n\<close>
  characters. \<open>memory_from bytes behind\<close> is the memory that starts with \<open>bytes\<close> and
  goes on with \<open>behind\<close>. A 16-bit field is stored least significant byte first.
\<close>

definition memory_from :: "uint8_t list \<Rightarrow> (nat \<Rightarrow> uint8_t) \<Rightarrow> nat \<Rightarrow> uint8_t" where
  "memory_from bytes behind i =
     (if i < length bytes then bytes ! i else behind (i - length bytes))"

definition store16 :: "uint16_t \<Rightarrow> uint8_t list" where
  "store16 w = [ucast w, ucast (drop_bit 8 w)]"

text \<open>
  \<^verbatim>\<open>strncpy(dst, src, n)\<close> writes exactly \<open>n\<close> bytes: the characters of the source
  up to its first null byte, at most \<open>n\<close> of them, then null bytes.
  \<open>strncpy_bytes src i n\<close> are the \<open>n\<close> bytes written when the source pointer stands
  at index \<open>i\<close> of the memory \<open>src\<close>.
\<close>

fun strncpy_bytes :: "(nat \<Rightarrow> uint8_t) \<Rightarrow> nat \<Rightarrow> nat \<Rightarrow> uint8_t list" where
  "strncpy_bytes src i 0 = []"
| "strncpy_bytes src i (Suc n) =
     (if src i = 0 then replicate (Suc n) 0
      else src i # strncpy_bytes src (Suc i) n)"

text \<open>
  \<^verbatim>\<open>ntp_getServerName\<close>: \<open>buffer\<close> is \<open>None\<close> for the null pointer, otherwise the
  memory the pointer leads to (at least \<open>buffer_size\<close> bytes); \<^verbatim>\<open>size_t\<close> is a
  natural number, as \<open>buffer_size - 1\<close> is computed only when \<open>buffer_size\<close> is not 0.
  The source of the copy is the memory at \<^verbatim>\<open>client_state.config.server_name\<close>: the
  256 bytes of the array, then the two bytes of \<open>server_port\<close>, then \<open>behind\<close>, the
  memory after that field (padding and the fields that follow). The bytes after the
  array are read only when the array holds no null byte and \<open>buffer_size - 1\<close> is more
  than 256. The result is the return value and the memory of the buffer after the call.
\<close>

definition ntp_getServerName ::
  "ntp_client_state_t \<Rightarrow> (nat \<Rightarrow> uint8_t) \<Rightarrow> uint8_t list option \<Rightarrow> nat
     \<Rightarrow> bool \<times> uint8_t list option" where
  "ntp_getServerName s behind buffer buffer_size =
     (case buffer of
        None \<Rightarrow> (False, None)
      | Some mem \<Rightarrow>
          if buffer_size = 0 then (False, Some mem)
          else if \<not> initialized s \<or> \<not> ever_synced s then (False, Some mem)
          else (True,
                Some (strncpy_bytes
                        (memory_from
                           (server_name (config s) @ store16 (server_port (config s))) behind)
                        0 (buffer_size - 1)
                      @ [0] @ drop buffer_size mem)))"

text \<open>
  \<^verbatim>\<open>ntp_setServer\<close>: \<open>name\<close> is \<open>None\<close> for the null pointer, otherwise the memory
  the pointer leads to. 255 bytes are copied and the last byte of the array is set to
  null.
\<close>

definition ntp_setServer ::
  "(nat \<Rightarrow> uint8_t) option \<Rightarrow> ntp_client_state_t \<Rightarrow> ntp_status_t \<times> ntp_client_state_t" where
  "ntp_setServer name s =
     (case name of
        None \<Rightarrow> (NTP_ERROR_INVALID_PARAM, s)
      | Some n \<Rightarrow>
          if \<not> initialized s then (NTP_ERROR_NOT_INIT, s)
          else (NTP_OK,
                s\<lparr> config := (config s)\<lparr> server_name := strncpy_bytes n 0 255 @ [0] \<rparr> \<rparr>))"

section \<open>Sub-second queries\<close>

text \<open>
  \<^verbatim>\<open>double\<close> is modelled by \<open>real\<close>: every arithmetic operation is exact. The model
  agrees with IEEE 754 arithmetic only on inputs where every intermediate value is a
  binary fraction of at most 53 significant bits; elsewhere the code rounds and the
  model does not (at \<open>tv_usec = 290000\<close> the code can give 28 hundredths where the
  model gives 29). The facts below use these definitions only at such exact inputs and
  on the path that returns 0 for a client that is not initialised or never synced.
  Conversion of a \<^verbatim>\<open>double\<close> to
  \<^verbatim>\<open>long\<close> or \<^verbatim>\<open>int\<close> truncates towards zero, and \<^verbatim>\<open>%\<close> on \<^verbatim>\<open>int\<close> is the
  remainder of the division truncated towards zero.
\<close>

definition c_trunc :: "real \<Rightarrow> int" where
  "c_trunc x = (if 0 \<le> x then \<lfloor>x\<rfloor> else \<lceil>x\<rceil>)"

definition c_rem :: "int \<Rightarrow> int \<Rightarrow> int" where
  "c_rem a b = a - b * (sgn a * sgn b * (\<bar>a\<bar> div \<bar>b\<bar>))"

definition ntp_getCurrentTimeWithMicros :: "ntp_client_state_t \<Rightarrow> timeval \<Rightarrow> real" where
  "ntp_getCurrentTimeWithMicros s current_time =
     (if \<not> initialized s \<or> \<not> ever_synced s then 0
      else of_int (sint (tv_sec current_time))
             + of_int (sint (tv_usec current_time)) / 1000000
             + of_int (sint (time_offset s)))"

definition ntp_getCurrentHundredths :: "ntp_client_state_t \<Rightarrow> timeval \<Rightarrow> int" where
  "ntp_getCurrentHundredths s current_time =
     (let time_with_micros = ntp_getCurrentTimeWithMicros s current_time
      in if time_with_micros = 0 then 0
         else
           (let fractional_part = time_with_micros - of_int (c_trunc time_with_micros)
            in c_rem (c_trunc (fractional_part * 100)) 100))"


section \<open>Concrete inputs\<close>

text \<open>The static initialiser of \<^verbatim>\<open>client_state\<close>; the configuration is zero-filled.\<close>

definition client_state_boot :: ntp_client_state_t where
  "client_state_boot =
     \<lparr> initialized = False, ever_synced = False,
       config = \<lparr> server_name = replicate 256 0, server_port = 0, timeout_ms = 0,
                  retry_count = 0, sync_interval = 0 \<rparr>,
       last_sync_time = 0, ntp_time = 0, time_offset = 0 \<rparr>"

text \<open>
  The configuration \<^verbatim>\<open>{server = "test.local", port = 123, timeout = 5000 ms}\<close> with
  a given retry count, and the state \<^verbatim>\<open>ntp_init\<close> makes of it.
\<close>

definition test_config :: "uint32_t \<Rightarrow> ntp_config_t" where
  "test_config rc =
     \<lparr> server_name =
         [0x74, 0x65, 0x73, 0x74, 0x2E, 0x6C, 0x6F, 0x63, 0x61, 0x6C] @ replicate 246 0,
       server_port = 123, timeout_ms = 5000, retry_count = rc, sync_interval = 7200 \<rparr>"

definition test_state :: "uint32_t \<Rightarrow> ntp_client_state_t" where
  "test_state rc = snd (ntp_init (Some (test_config rc)) 0 client_state_boot)"

text \<open>
  Answers of the operating system: every call succeeds and the datagram \<open>d\<close> arrives;
  nothing arrives before the timeout; the name does not resolve
  (\<^verbatim>\<open>getaddrinfo\<close> returns \<^verbatim>\<open>EAI_NONAME\<close>).
\<close>

definition good_syscalls :: "uint8_t list \<Rightarrow> syscalls" where
  "good_syscalls d =
     \<lparr> socket_ret = 3, setsockopt_ret = 0, getaddrinfo_ret = 0, inet_ntop_ok = True,
       inet_pton_ret = 1, sendto_ret = 48, select_ret = 1, recvfrom_ret = Some d \<rparr>"

definition timeout_syscalls :: syscalls where
  "timeout_syscalls =
     \<lparr> socket_ret = 3, setsockopt_ret = 0, getaddrinfo_ret = 0, inet_ntop_ok = True,
       inet_pton_ret = 1, sendto_ret = 48, select_ret = 0, recvfrom_ret = None \<rparr>"

definition unresolved_syscalls :: syscalls where
  "unresolved_syscalls =
     \<lparr> socket_ret = 3, setsockopt_ret = 0, getaddrinfo_ret = - 2, inet_ntop_ok = False,
       inet_pton_ret = 0, sendto_ret = - 1, select_ret = - 1, recvfrom_ret = None \<rparr>"

text \<open>
  A 48-byte answer in server mode (first byte \<open>0x24\<close>: leap 0, version 4, mode 4) with
  the given stratum and the given four bytes of transmit seconds.
\<close>

definition server_datagram :: "uint8_t \<Rightarrow> uint8_t \<Rightarrow> uint8_t \<Rightarrow> uint8_t \<Rightarrow> uint8_t \<Rightarrow> uint8_t list" where
  "server_datagram st b3 b2 b1 b0 =
     [0x24, st, 0, 0xE9, 0, 0, 0, 0, 0, 0, 0, 0, 0, 0, 0, 0,
      0, 0, 0, 0, 0, 0, 0, 0, 0, 0, 0, 0, 0, 0, 0, 0,
      0, 0, 0, 0, 0, 0, 0, 0, b3, b2, b1, b0, 0, 0, 0, 0]"

text \<open>
  Transmit seconds \<open>3908988800 = 0xE8FE6F80\<close>, which is Unix time \<open>1700000000\<close>, at
  stratum 2, while the local clock reads \<open>1699999995\<close>.
\<close>

definition scenario_world :: sync_world where
  "scenario_world =
     \<lparr> exchange = (\<lambda>k. good_syscalls (server_datagram 2 0xE8 0xFE 0x6F 0x80)),
       stack_response = zero_packet,
       local_time = \<lparr> tv_sec = 1699999995, tv_usec = 0 \<rparr> \<rparr>"

text \<open>The same server behind an exchange that times out twice and then succeeds.\<close>

definition flaky_world :: sync_world where
  "flaky_world =
     \<lparr> exchange = (\<lambda>k. if k < 2 then timeout_syscalls
                        else good_syscalls (server_datagram 2 0xE8 0xFE 0x6F 0x80)),
       stack_response = zero_packet,
       local_time = \<lparr> tv_sec = 1699999995, tv_usec = 0 \<rparr> \<rparr>"

text \<open>A server that answers every request with stratum 0.\<close>

definition stratum0_world :: sync_world where
  "stratum0_world =
     \<lparr> exchange = (\<lambda>k. good_syscalls (server_datagram 0 0xE8 0xFE 0x6F 0x80)),
       stack_response = zero_packet,
       local_time = \<lparr> tv_sec = 1699999995, tv_usec = 0 \<rparr> \<rparr>"

text \<open>A name that never resolves.\<close>

definition unresolved_world :: sync_world where
  "unresolved_world =
     \<lparr> exchange = (\<lambda>k. unresolved_syscalls),
       stack_response = zero_packet,
       local_time = \<lparr> tv_sec = 1699999995, tv_usec = 0 \<rparr> \<rparr>"

text \<open>
  A peer that answers with the two bytes \<open>0x24 0x01\<close> only, while the local
  \<open>response\<close> holds \<open>r\<close> on entry and the local clock reads \<open>1700000000\<close>.
\<close>

definition short_world :: "ntp_packet_t \<Rightarrow> sync_world" where
  "short_world r =
     \<lparr> exchange = (\<lambda>k. good_syscalls [0x24, 0x01]),
       stack_response = r,
       local_time = \<lparr> tv_sec = 1700000000, tv_usec = 0 \<rparr> \<rparr>"

text \<open>
  A server whose transmit seconds are 0 (the first second of an NTP era), at stratum
  2, while the local clock reads \<open>1700000000\<close>.
\<close>

definition zero_tx_world :: sync_world where
  "zero_tx_world =
     \<lparr> exchange = (\<lambda>k. good_syscalls (server_datagram 2 0 0 0 0)),
       stack_response = zero_packet,
       local_time = \<lparr> tv_sec = 1700000000, tv_usec = 0 \<rparr> \<rparr>"

section \<open>Facts about the time conversions\<close>

lemma sint_ntp_time_to_unix_time:
  "sint (ntp_time_to_unix_time s) = uint s - 2208988800"
proof -
  have a: "ntp_time_to_unix_time s = word_of_int (uint s - 2208988800)"
    by (simp add: ntp_time_to_unix_time_def NTP_TIMESTAMP_DELTA_def)
  have b: "uint s < 2 ^ 32" using uint_bounded [of s] by simp
  have c: "0 \<le> uint s" by simp
  have d: "signed_take_bit 63 (uint s - 2208988800) = uint s - 2208988800"
    by (rule signed_take_bit_int_eq_self) (use b c in simp_all)
  show ?thesis
    unfolding a sint_sbintrunc' by (simp add: d)
qed

lemma unix_time_in_era:
  fixes t :: time_t
  assumes lo: "- 2208988800 \<le> sint t" and hi: "sint t \<le> 2085978495"
  shows "unix_time_to_ntp_time t = word_of_int (sint t + 2208988800)"
    and "uint (unix_time_to_ntp_time t) = sint t + 2208988800"
    and "ntp_time_to_unix_time (unix_time_to_ntp_time t) = t"
proof -
  define k where "k = sint t + 2208988800"
  have k0: "0 \<le> k" and k1: "k < 2 ^ 32" using lo hi by (simp_all add: k_def)
  have sum: "t + 2208988800 = (word_of_int k :: 64 word)"
    by (simp add: k_def)
  have u64: "uint (word_of_int k :: 64 word) = k"
    using k0 k1 by (simp add: uint_word_of_int_eq take_bit_int_eq_self)
  have u32: "uint (word_of_int k :: 32 word) = k"
    using k0 k1 by (simp add: uint_word_of_int_eq take_bit_int_eq_self)
  have down: "(ucast (word_of_int k :: 64 word) :: 32 word) = word_of_int k"
    by (simp only: ucast_eq u64)
  have up: "(ucast (word_of_int k :: 32 word) :: 64 word) = word_of_int k"
    by (simp only: ucast_eq u32)
  show n: "unix_time_to_ntp_time t = word_of_int (sint t + 2208988800)"
    by (simp only: unix_time_to_ntp_time_def NTP_TIMESTAMP_DELTA_def sum down k_def [symmetric])
  show "uint (unix_time_to_ntp_time t) = sint t + 2208988800"
    by (simp only: n k_def [symmetric] u32)
  have "ntp_time_to_unix_time (unix_time_to_ntp_time t) = (word_of_int k :: 64 word) - 2208988800"
    by (simp only: ntp_time_to_unix_time_def n k_def [symmetric] NTP_TIMESTAMP_DELTA_def up)
  also have "\<dots> = word_of_int (k - 2208988800)"
    by simp
  also have "\<dots> = t"
    by (simp add: k_def)
  finally show "ntp_time_to_unix_time (unix_time_to_ntp_time t) = t" .
qed

lemma uint_unix_time_to_ntp_time:
  "uint (unix_time_to_ntp_time t) = (sint t + 2208988800) mod 2 ^ 32"
proof -
  have "uint (unix_time_to_ntp_time t) = take_bit 32 (uint (t + 2208988800))"
    by (simp add: unix_time_to_ntp_time_def NTP_TIMESTAMP_DELTA_def unsigned_ucast_eq)
  also have "uint (t + 2208988800) = take_bit 64 (sint t + 2208988800)"
  proof -
    have "t + 2208988800 = (word_of_int (sint t + 2208988800) :: 64 word)" by simp
    then show ?thesis by (simp only: uint_word_of_int_eq len_gt_0) simp
  qed
  also have "take_bit 32 (take_bit 64 (sint t + 2208988800)) = take_bit 32 (sint t + 2208988800)"
    by simp
  finally show ?thesis by (simp add: take_bit_eq_mod)
qed

section \<open>Facts about one exchange and about the loop\<close>

lemma send_status_indep: "fst (send_ntp_request sys r) = exchange_status sys"
  by (simp add: exchange_status_def send_ntp_request_def Let_def split: option.splits)

lemma send_fail_response:
  "fst (send_ntp_request sys r) \<noteq> NTP_OK \<Longrightarrow> snd (send_ntp_request sys r) = r"
  by (simp add: send_ntp_request_def Let_def split: option.splits if_splits)

lemma send_fail_eq:
  "exchange_status sys \<noteq> NTP_OK \<Longrightarrow> send_ntp_request sys r = (exchange_status sys, r)"
  using send_status_indep [of sys r] send_fail_response [of sys r]
  by (cases "send_ntp_request sys r") simp

lemma send_ok_eq:
  "exchange_status sys = NTP_OK \<Longrightarrow>
     send_ntp_request sys r = (NTP_OK, snd (send_ntp_request sys r))"
  using send_status_indep [of sys r]
  by (cases "send_ntp_request sys r") simp

lemma loop_ok_now:
  assumes "exchange_status (net (unat a)) = NTP_OK"
  shows "ntp_sync_loop retry net r a = (NTP_OK, snd (send_ntp_request (net (unat a)) r), a + 1)"
proof -
  obtain st r' where e: "send_ntp_request (net (unat a)) r = (st, r')"
    by (cases "send_ntp_request (net (unat a)) r")
  have "st = NTP_OK" using send_status_indep [of "net (unat a)" r] e assms by simp
  then show ?thesis by (subst ntp_sync_loop.simps) (simp add: e)
qed

lemma loop_fail_last:
  assumes "exchange_status (net (unat a)) \<noteq> NTP_OK" and "\<not> a + 1 < retry"
  shows "ntp_sync_loop retry net r a = (exchange_status (net (unat a)), r, a + 1)"
  by (subst ntp_sync_loop.simps) (simp add: send_fail_eq [OF assms(1)] assms(2))

lemma loop_fail_step:
  assumes "exchange_status (net (unat a)) \<noteq> NTP_OK" and "a + 1 < retry"
  shows "ntp_sync_loop retry net r a = ntp_sync_loop retry net r (a + 1)"
  by (subst ntp_sync_loop.simps) (simp add: send_fail_eq [OF assms(1)] assms)

lemma unat_succ_lt:
  fixes a retry :: uint32_t
  assumes "unat a + 1 < unat retry"
  shows "a + 1 < retry" and "unat (a + 1) = unat a + 1"
proof -
  have "unat retry < 2 ^ 32" using unsigned_less [of retry] by simp
  then have b: "unat a + 1 < 2 ^ 32" using assms by simp
  then show u: "unat (a + 1) = unat a + 1"
    by (simp add: unat_word_ariths)
  show "a + 1 < retry" using assms u by (simp add: word_less_nat_alt)
qed

lemma loop_first_ok:
  assumes "exchange_status (net k) = NTP_OK"
    and "\<forall>j. unat a \<le> j \<and> j < k \<longrightarrow> exchange_status (net j) \<noteq> NTP_OK"
    and "unat a \<le> k" and "k = unat a \<or> k < unat retry"
  shows "ntp_sync_loop retry net r a = (NTP_OK, snd (send_ntp_request (net k) r), of_nat (k + 1))"
  using assms
proof (induction "k - unat a" arbitrary: a)
  case 0
  then have "k = unat a" by simp
  then show ?case using 0 loop_ok_now [of net a retry r] by simp
next
  case (Suc d)
  then have lt: "unat a < k" by simp
  then have kr: "k < unat retry" using Suc.prems by auto
  have fail: "exchange_status (net (unat a)) \<noteq> NTP_OK" using Suc.prems lt by simp
  have s: "unat a + 1 < unat retry" using lt kr by simp
  note st = unat_succ_lt [OF s]
  have "ntp_sync_loop retry net r a = ntp_sync_loop retry net r (a + 1)"
    using fail st(1) by (rule loop_fail_step)
  also have "\<dots> = (NTP_OK, snd (send_ntp_request (net k) r), of_nat (k + 1))"
  proof (rule Suc.hyps(1))
    show "d = k - unat (a + 1)" using Suc.hyps(2) st(2) by simp
    show "exchange_status (net k) = NTP_OK" by (rule Suc.prems(1))
    show "\<forall>j. unat (a + 1) \<le> j \<and> j < k \<longrightarrow> exchange_status (net j) \<noteq> NTP_OK"
      using Suc.prems(2) st(2) by simp
    show "unat (a + 1) \<le> k" using lt st(2) by simp
    show "k = unat (a + 1) \<or> k < unat retry" using kr by simp
  qed
  finally show ?case .
qed

lemma loop_all_fail:
  assumes "\<forall>j. unat a \<le> j \<and> j < unat retry \<longrightarrow> exchange_status (net j) \<noteq> NTP_OK"
    and "unat a < unat retry"
  shows "ntp_sync_loop retry net r a = (exchange_status (net (unat retry - 1)), r, retry)"
  using assms
proof (induction "unat retry - unat a" arbitrary: a)
  case 0
  then show ?case by simp
next
  case (Suc d)
  have fail: "exchange_status (net (unat a)) \<noteq> NTP_OK" using Suc.prems by simp
  show ?case
  proof (cases "unat a + 1 < unat retry")
    case True
    note st = unat_succ_lt [OF True]
    have "ntp_sync_loop retry net r a = ntp_sync_loop retry net r (a + 1)"
      using fail st(1) by (rule loop_fail_step)
    also have "\<dots> = (exchange_status (net (unat retry - 1)), r, retry)"
    proof (rule Suc.hyps(1))
      show "d = unat retry - unat (a + 1)" using Suc.hyps(2) st(2) by simp
      show "\<forall>j. unat (a + 1) \<le> j \<and> j < unat retry \<longrightarrow> exchange_status (net j) \<noteq> NTP_OK"
        using Suc.prems(1) st(2) by simp
      show "unat (a + 1) < unat retry" using True st(2) by simp
    qed
    finally show ?thesis .
  next
    case False
    then have eq: "unat retry = unat a + 1" using Suc.prems(2) by simp
    then have r: "retry = a + 1"
      by (metis of_nat_unat of_nat_Suc Suc_eq_plus1 of_nat_add of_nat_1 ucast_id)
    then have nlt: "\<not> a + 1 < retry" by simp
    show ?thesis using loop_fail_last [where net = net and a = a and retry = retry and r = r] fail nlt eq r by simp
  qed
qed

subsection \<open>The concrete inputs\<close>

lemma good_status: "exchange_status (good_syscalls d) = NTP_OK"
  by (simp add: exchange_status_def send_ntp_request_def good_syscalls_def
      resolve_hostname_def Let_def)

lemma timeout_status: "exchange_status timeout_syscalls = NTP_ERROR_TIMEOUT"
  by (simp add: exchange_status_def send_ntp_request_def timeout_syscalls_def
      resolve_hostname_def)

lemma test_state_fields:
  "initialized (test_state rc)" "\<not> ever_synced (test_state rc)"
  "retry_count (config (test_state rc)) = rc"
  "server_name (config (test_state rc)) =
     [0x74, 0x65, 0x73, 0x74, 0x2E, 0x6C, 0x6F, 0x63, 0x61, 0x6C] @ replicate 246 0"
  by (simp_all add: test_state_def ntp_init_def client_state_boot_def test_config_def)

lemma recv_server_datagram:
  "send_ntp_request (good_syscalls (server_datagram st b3 b2 b1 b0)) r = (NTP_OK, r') \<Longrightarrow>
     li_vn_mode r' = 0x24 \<and> stratum r' = st
       \<and> tx_timestamp_sec r' = ntohl (load32 [b3, b2, b1, b0] 0)"
  by (auto simp add: send_ntp_request_def good_syscalls_def resolve_hostname_def Let_def
      recvfrom_into_def server_datagram_def bytes_packet_def load32_def)

lemma first_exchange_ok:
  assumes "exchange_status (exchange w 0) = NTP_OK"
  shows "ntp_sync_loop rc (exchange w) (stack_response w) 0
           = (NTP_OK, snd (send_ntp_request (exchange w 0) (stack_response w)), 1)"
  using loop_ok_now [where net = "exchange w" and a = 0 and retry = rc and r = "stack_response w"]
    assms by simp

lemma scenario_sync:
  "ntp_sync scenario_world (test_state rc) =
     (NTP_OK, (test_state rc)\<lparr> time_offset := 5, last_sync_time := 1699999995,
                 ntp_time := 1700000000, ever_synced := True \<rparr>)"
proof -
  let ?d = "server_datagram 2 0xE8 0xFE 0x6F 0x80"
  obtain r' where r': "send_ntp_request (good_syscalls ?d) zero_packet = (NTP_OK, r')"
    using send_ok_eq [OF good_status] by blast
  have ex: "exchange scenario_world = (\<lambda>k. good_syscalls ?d)"
    and sr: "stack_response scenario_world = zero_packet"
    and lt: "tv_sec (local_time scenario_world) = 1699999995"
    by (simp_all add: scenario_world_def)
  have loop: "ntp_sync_loop rc (exchange scenario_world) (stack_response scenario_world) 0
      = (NTP_OK, r', 1)"
    using first_exchange_ok [of scenario_world rc] by (simp add: ex sr good_status r')
  have f: "li_vn_mode r' = 0x24" "stratum r' = 2" "tx_timestamp_sec r' = 3908988800"
    using recv_server_datagram [OF r'] by (simp_all add: ntohl_def load32_def)
  have c: "ntp_time_to_unix_time 3908988800 = 1700000000"
    by (simp add: ntp_time_to_unix_time_def NTP_TIMESTAMP_DELTA_def)
  show ?thesis
    by (simp add: ntp_sync_def test_state_fields loop f c lt Let_def)
qed

lemma unat_of_nat_below:
  fixes rc :: uint32_t
  assumes "k = 0 \<or> k < unat rc"
  shows "unat (of_nat (k + 1) :: uint32_t) = k + 1"
proof -
  have "unat rc < 2 ^ 32" using unsigned_less [of rc] by simp
  then have "k + 1 < 2 ^ 32" using assms by auto
  moreover have "unat (word_of_nat (k + 1) :: uint32_t) = (k + 1) mod 2 ^ LENGTH(32)"
    by (rule unat_of_nat)
  ultimately show ?thesis by simp
qed

lemma sync_loop_first_ok:
  assumes "exchange_status (exchange w k) = NTP_OK"
    and "\<forall>j<k. exchange_status (exchange w j) \<noteq> NTP_OK"
    and "k = 0 \<or> k < unat rc"
  shows "ntp_sync_loop rc (exchange w) (stack_response w) 0
           = (NTP_OK, snd (send_ntp_request (exchange w k) (stack_response w)), of_nat (k + 1))"
  using loop_first_ok [where net = "exchange w" and k = k and a = 0 and retry = rc
      and r = "stack_response w"] assms
  by simp

lemma sync_loop_all_fail:
  assumes "\<forall>j<unat rc. exchange_status (exchange w j) \<noteq> NTP_OK" and "1 \<le> rc"
  shows "ntp_sync_loop rc (exchange w) (stack_response w) 0
           = (exchange_status (exchange w (unat rc - 1)), stack_response w, rc)"
proof -
  have "0 < unat rc" using assms(2) by (simp add: word_le_nat_alt)
  then show ?thesis
    using loop_all_fail [where net = "exchange w" and a = 0 and retry = rc
        and r = "stack_response w"] assms(1)
    by simp
qed

lemma first_ok_exists:
  fixes n :: nat
  assumes "\<exists>k<n. P k"
  shows "\<exists>k<n. P k \<and> (\<forall>j<k. \<not> P j)"
proof -
  from assms obtain k where k: "k < n" "P k" by blast
  define m where "m = (LEAST i. P i)"
  have pm: "P m" unfolding m_def using k(2) LeastI [of P k] by simp
  have "m \<le> k" unfolding m_def using k(2) Least_le [of P k] by simp
  then have mn: "m < n" using k(1) by simp
  have least: "\<forall>j<m. \<not> P j" unfolding m_def using not_less_Least [of _ P] by blast
  show ?thesis
  proof (intro exI conjI)
    show "m < n" by (rule mn)
    show "P m" by (rule pm)
    show "\<forall>j<m. \<not> P j" by (rule least)
  qed
qed

lemma stratum_range:
  fixes st :: uint8_t
  shows "(st \<noteq> 0 \<and> \<not> 16 \<le> st) = (1 \<le> st \<and> st \<le> 15)"
  by unat_arith

lemma flaky_status:
  "exchange_status (exchange flaky_world k) = (if k < 2 then NTP_ERROR_TIMEOUT else NTP_OK)"
  by (simp add: flaky_world_def timeout_status good_status)

lemma flaky_response:
  "snd (send_ntp_request (exchange flaky_world 2) (stack_response flaky_world)) = r' \<Longrightarrow>
     li_vn_mode r' = 0x24 \<and> stratum r' = 2 \<and> tx_timestamp_sec r' = 3908988800"
proof -
  assume a: "snd (send_ntp_request (exchange flaky_world 2) (stack_response flaky_world)) = r'"
  have e: "exchange flaky_world 2 = good_syscalls (server_datagram 2 0xE8 0xFE 0x6F 0x80)"
    by (simp add: flaky_world_def)
  have "send_ntp_request (good_syscalls (server_datagram 2 0xE8 0xFE 0x6F 0x80))
          (stack_response flaky_world) = (NTP_OK, r')"
    using send_ok_eq [OF good_status, of "server_datagram 2 0xE8 0xFE 0x6F 0x80"
        "stack_response flaky_world"] a e by simp
  from recv_server_datagram [OF this] show ?thesis
    by (simp add: ntohl_def load32_def)
qed

subsection \<open>A datagram shorter than the struct\<close>

lemma load32_store32:
  fixes w :: uint32_t
  shows "ucast (ucast w :: uint8_t) OR push_bit 8 (ucast (ucast (drop_bit 8 w) :: uint8_t))
           OR push_bit 16 (ucast (ucast (drop_bit 16 w) :: uint8_t))
           OR push_bit 24 (ucast (ucast (drop_bit 24 w) :: uint8_t)) = w"
  apply (rule bit_word_eqI)
  apply (auto simp add: bit_simps)
  subgoal for n
  proof (cases "n < 24")
    case True
    then show ?thesis by simp
  next
    case False
    assume a: "bit w n" "\<not> bit w (24 + (n - 24))"
    from False have "24 + (n - 24) = n" by simp
    with a show ?thesis by simp
  qed
  done

lemma recv_short_datagram:
  "send_ntp_request (good_syscalls [0x24, 0x01]) r = (NTP_OK, r') \<Longrightarrow>
     li_vn_mode r' = 0x24 \<and> stratum r' = 1 \<and> tx_timestamp_sec r' = ntohl (tx_timestamp_sec r)"
  by (auto simp add: send_ntp_request_def good_syscalls_def resolve_hostname_def Let_def
      recvfrom_into_def packet_bytes_def store32_def bytes_packet_def load32_def load32_store32)

subsection \<open>The event trace\<close>

lemma loop_events_first:
  "\<exists>es. ntp_sync_loop_events retry net r a = Network_IO # es"
  by (subst ntp_sync_loop_events.simps) (simp split: prod.splits)

lemma loop_events_ok:
  assumes "exchange_status (net (unat a)) = NTP_OK"
  shows "ntp_sync_loop_events retry net r a = [Network_IO]"
proof -
  obtain st r' where e: "send_ntp_request (net (unat a)) r = (st, r')"
    by (cases "send_ntp_request (net (unat a)) r")
  have "st = NTP_OK" using send_status_indep [of "net (unat a)" r] e assms by simp
  then show ?thesis by (subst ntp_sync_loop_events.simps) (simp add: e)
qed

lemma loop_events_fail_step:
  assumes "exchange_status (net (unat a)) \<noteq> NTP_OK" and "a + 1 < retry"
  shows "ntp_sync_loop_events retry net r a
           = [Network_IO, Unlock, Sleep, Lock] @ ntp_sync_loop_events retry net r (a + 1)"
  by (subst ntp_sync_loop_events.simps) (simp add: send_fail_eq [OF assms(1)] assms)

subsection \<open>Exchanges that all fail\<close>

lemma unresolved_fails:
  "\<not> resolve_hostname sys \<Longrightarrow> send_ntp_request sys r = (NTP_ERROR_NETWORK, r)"
  by (simp add: send_ntp_request_def)

lemma sync_every_exchange_fails:
  assumes init: "initialized s"
    and f: "\<forall>k. exchange_status (exchange w k) \<noteq> NTP_OK"
  shows "ntp_sync w s
           = (exchange_status (exchange w (unat (retry_count (config s)) - 1)), s)"
proof -
  let ?rc = "retry_count (config s)"
  have loop: "\<exists>n. ntp_sync_loop ?rc (exchange w) (stack_response w) 0
      = (exchange_status (exchange w (unat ?rc - 1)), stack_response w, n)"
  proof (cases "1 \<le> ?rc")
    case True
    then show ?thesis using sync_loop_all_fail [of ?rc w] f by simp
  next
    case False
    then have "unat ?rc = 0" by (simp add: word_le_nat_alt)
    then have z: "?rc = 0" by (simp add: unat_eq_zero)
    then have "\<not> (0 :: uint32_t) + 1 < ?rc" by simp
    then show ?thesis
      using loop_fail_last [where net = "exchange w" and a = 0 and retry = ?rc
          and r = "stack_response w"] f z
      by simp
  qed
  then obtain n where "ntp_sync_loop ?rc (exchange w) (stack_response w) 0
      = (exchange_status (exchange w (unat ?rc - 1)), stack_response w, n)" ..
  then show ?thesis using init f by (simp add: ntp_sync_def)
qed

lemma zero_tx_sync:
  "ntp_sync zero_tx_world (test_state rc) =
     (NTP_OK, (test_state rc)\<lparr> time_offset := - 3908988800, last_sync_time := 1700000000,
                 ntp_time := - 2208988800, ever_synced := True \<rparr>)"
proof -
  let ?d = "server_datagram 2 0 0 0 0"
  obtain r' where r': "send_ntp_request (good_syscalls ?d) zero_packet = (NTP_OK, r')"
    using send_ok_eq [OF good_status] by blast
  have ex: "exchange zero_tx_world = (\<lambda>k. good_syscalls ?d)"
    and sr: "stack_response zero_tx_world = zero_packet"
    and lt: "tv_sec (local_time zero_tx_world) = 1700000000"
    by (simp_all add: zero_tx_world_def)
  have loop: "ntp_sync_loop rc (exchange zero_tx_world) (stack_response zero_tx_world) 0
      = (NTP_OK, r', 1)"
    using first_exchange_ok [of zero_tx_world rc] by (simp add: ex sr good_status r')
  have f: "li_vn_mode r' = 0x24" "stratum r' = 2" "tx_timestamp_sec r' = 0"
    using recv_server_datagram [OF r'] by (simp_all add: ntohl_def load32_def)
  have c: "ntp_time_to_unix_time 0 = - 2208988800"
    by (simp add: ntp_time_to_unix_time_def NTP_TIMESTAMP_DELTA_def)
  show ?thesis
    by (simp add: ntp_sync_def test_state_fields loop f c lt Let_def)
qed

subsection \<open>Copying the server name\<close>

lemma strncpy_bytes_length: "length (strncpy_bytes src i n) = n"
  by (induction n arbitrary: i) simp_all

lemma takeWhile_zero_pad:
  "takeWhile (\<lambda>c. c \<noteq> 0) (replicate k (0 :: uint8_t) @ 0 # rest) = []"
  by (cases k) simp_all

lemma strncpy_bytes_cstring:
  "takeWhile (\<lambda>c. c \<noteq> 0) (strncpy_bytes src i n @ 0 # rest)
     = takeWhile (\<lambda>c. c \<noteq> 0) (map src [i..<i + n])"
proof (induction n arbitrary: i)
  case 0
  then show ?case by simp
next
  case (Suc n)
  have u: "[i..<i + Suc n] = i # [Suc i..<Suc i + n]"
    by (simp add: upt_conv_Cons)
  show ?case
  proof (cases "src i = 0")
    case True
    then show ?thesis unfolding u by (simp add: takeWhile_zero_pad)
  next
    case False
    then show ?thesis unfolding u using Suc [of "Suc i"] by simp
  qed
qed

lemma map_memory_from:
  "map (memory_from bytes behind) [0..<n]
     = take n bytes @ map behind [0..<n - length bytes]"
  by (rule nth_equalityI) (auto simp add: memory_from_def nth_append)

lemma takeWhile_take:
  "takeWhile P (take n xs) = take n (takeWhile P xs)"
proof (induction xs arbitrary: n)
  case Nil
  then show ?case by simp
next
  case (Cons x xs)
  then show ?case by (cases n) simp_all
qed

lemma cstring_of_name_memory:
  assumes "0 \<in> set name \<or> n \<le> length name"
  shows "takeWhile (\<lambda>c. c \<noteq> 0) (map (memory_from (name @ field) behind) [0..<n])
           = take n (takeWhile (\<lambda>c. c \<noteq> (0 :: uint8_t)) name)"
proof (cases "n \<le> length name")
  case True
  then have "map (memory_from (name @ field) behind) [0..<n] = take n name"
    by (simp add: map_memory_from)
  then show ?thesis by (simp add: takeWhile_take)
next
  case False
  with assms have z: "0 \<in> set name" by simp
  from False have "map (memory_from (name @ field) behind) [0..<n]
      = name @ (take (n - length name) field @ map behind [0..<n - length (name @ field)])"
    by (simp add: map_memory_from)
  then have "takeWhile (\<lambda>c. c \<noteq> 0) (map (memory_from (name @ field) behind) [0..<n])
      = takeWhile (\<lambda>c. c \<noteq> 0) name"
    using z takeWhile_append1 [of 0 name "\<lambda>c. c \<noteq> 0"] by simp
  moreover have "length (takeWhile (\<lambda>c. c \<noteq> 0) name) \<le> length name"
    by (rule length_takeWhile_le)
  ultimately show ?thesis using False by simp
qed

lemma strncpy_bytes_4:
  "strncpy_bytes src 0 4 =
     (if src 0 = 0 then [0, 0, 0, 0]
      else src 0 # (if src 1 = 0 then [0, 0, 0]
      else src 1 # (if src 2 = 0 then [0, 0]
      else src 2 # (if src 3 = 0 then [0] else [src 3]))))"
  by (simp add: eval_nat_numeral)

lemma test_name_memory:
  "memory_from (server_name (config (test_state rc)) @ port) behind 0 = 0x74"
  "memory_from (server_name (config (test_state rc)) @ port) behind (Suc 0) = 0x65"
  "memory_from (server_name (config (test_state rc)) @ port) behind 2 = 0x73"
  "memory_from (server_name (config (test_state rc)) @ port) behind 3 = 0x74"
  by (simp_all add: memory_from_def test_state_fields)

text \<open>
  A name array without a null byte, port 123 and room for more than the array: the
  copy reads on into \<open>server_port\<close>, whose low byte \<open>0x7B\<close> follows the name and
  whose high byte ends the string.
\<close>

lemma name_without_null_reads_port:
  assumes "0 \<notin> set name" and "length name + 2 \<le> n"
  shows "takeWhile (\<lambda>c. c \<noteq> 0) (map (memory_from (name @ store16 123) behind) [0..<n])
           = name @ [0x7B]"
proof -
  have "map (memory_from (name @ store16 123) behind) [0..<n]
      = name @ ([0x7B, 0] @ map behind [0..<n - length (name @ store16 123)])"
    using assms(2) by (simp add: map_memory_from store16_def)
  moreover have "takeWhile (\<lambda>c. c \<noteq> 0)
        (name @ ([0x7B, 0] @ map behind [0..<n - length (name @ store16 123)]))
      = name @ takeWhile (\<lambda>c. c \<noteq> 0)
          ([0x7B, 0] @ map behind [0..<n - length (name @ store16 123)])"
    by (rule takeWhile_append2) (use assms(1) in auto)
  ultimately show ?thesis by simp
qed

section \<open>The claims\<close>

text \<open>
  C1. When \<^verbatim>\<open>ntp_sync\<close> succeeds, it commits \<open>time_offset\<close> = the Unix time of the
  transmit seconds of the response it read minus the local clock reading, with
  \<open>last_sync_time\<close> that reading and \<open>ever_synced\<close> true; from then on
  \<^verbatim>\<open>ntp_getCurrentTime\<close>, called when the local clock reads \<open>L\<close>, returns \<open>L\<close> plus
  the offset. The sums and differences are those of the 64-bit \<^verbatim>\<open>time_t\<close>.
\<close>

theorem ntp_sync_commits_offset:
  assumes "fst (ntp_sync w s) = NTP_OK"
  shows "time_offset (snd (ntp_sync w s))
           = ntp_time_to_unix_time (tx_timestamp_sec (ntp_sync_response w s)) - tv_sec (local_time w)
       \<and> last_sync_time (snd (ntp_sync w s)) = tv_sec (local_time w)
       \<and> ever_synced (snd (ntp_sync w s))
       \<and> (\<forall>L. ntp_getCurrentTime (snd (ntp_sync w s)) L
                 = tv_sec L + time_offset (snd (ntp_sync w s)))"
proof -
  obtain st r n where loop:
    "ntp_sync_loop (retry_count (config s)) (exchange w) (stack_response w) 0 = (st, r, n)"
    by (cases "ntp_sync_loop (retry_count (config s)) (exchange w) (stack_response w) 0")
  have init: "initialized s"
    by (rule ccontr) (use assms in \<open>simp add: ntp_sync_def\<close>)
  have resp: "ntp_sync_response w s = r"
    by (simp add: ntp_sync_response_def loop)
  have "ntp_sync w s =
      (NTP_OK, s\<lparr> time_offset := ntp_time_to_unix_time (tx_timestamp_sec r) - tv_sec (local_time w),
                   last_sync_time := tv_sec (local_time w),
                   ntp_time := ntp_time_to_unix_time (tx_timestamp_sec r),
                   ever_synced := True \<rparr>)"
    using assms init by (simp add: ntp_sync_def loop Let_def split: if_splits)
  then show ?thesis
    using init by (simp add: resp ntp_getCurrentTime_def)
qed

text \<open>
  The scenario of the specification: the server's transmit time is Unix
  \<open>1700000000\<close> and the local clock reads \<open>1699999995\<close>; the committed offset is 5
  and the query made when the local clock reads \<open>1699999999\<close> returns \<open>1700000004\<close>.
\<close>

theorem ntp_sync_commits_offset_witness:
  "fst (ntp_sync scenario_world (test_state 3)) = NTP_OK
     \<and> time_offset (snd (ntp_sync scenario_world (test_state 3))) = 5
     \<and> last_sync_time (snd (ntp_sync scenario_world (test_state 3))) = 1699999995
     \<and> ever_synced (snd (ntp_sync scenario_world (test_state 3)))
     \<and> ntp_getCurrentTime (snd (ntp_sync scenario_world (test_state 3)))
           \<lparr> tv_sec = 1699999999, tv_usec = 0 \<rparr> = 1700000004"
proof -
  have ok: "fst (ntp_sync scenario_world (test_state 3)) = NTP_OK"
    by (simp add: scenario_sync)
  have off: "time_offset (snd (ntp_sync scenario_world (test_state 3))) = 5"
    by (simp add: scenario_sync)
  note c = ntp_sync_commits_offset [OF ok]
  from c have "ntp_getCurrentTime (snd (ntp_sync scenario_world (test_state 3)))
           \<lparr> tv_sec = 1699999999, tv_usec = 0 \<rparr>
        = tv_sec \<lparr> tv_sec = 1699999999, tv_usec = 0 \<rparr>
            + time_offset (snd (ntp_sync scenario_world (test_state 3)))"
    by blast
  then have "ntp_getCurrentTime (snd (ntp_sync scenario_world (test_state 3)))
           \<lparr> tv_sec = 1699999999, tv_usec = 0 \<rparr> = 1700000004"
    by (simp add: off)
  moreover from c have "last_sync_time (snd (ntp_sync scenario_world (test_state 3))) = 1699999995"
    by (simp add: scenario_world_def)
  moreover from c have "ever_synced (snd (ntp_sync scenario_world (test_state 3)))"
    by blast
  ultimately show ?thesis using ok off by blast
qed

text \<open>
  C2. For an initialised state and a retry count of at least 1, \<^verbatim>\<open>ntp_sync\<close> makes
  at most \<open>retry_count\<close> exchanges. When exchange \<open>k\<close> (counted from 0, \<open>k\<close> below
  the retry count) is the first that succeeds, exactly \<open>k + 1\<close> exchanges are made, the
  response read is that exchange's, and if it passes validation the result is
  \<^verbatim>\<open>NTP_OK\<close> with the offset committed. When all \<open>retry_count\<close> exchanges fail, the
  status of the last one is returned and the client state is unchanged, so
  \<open>ever_synced\<close>, the offset and the time of the last sync are what they were.
\<close>

theorem ntp_sync_retry_limit:
  assumes init: "initialized s" and rc: "1 \<le> retry_count (config s)"
  shows "ntp_sync_attempts w s \<le> unat (retry_count (config s))
    \<and> (\<forall>k. k < unat (retry_count (config s))
            \<and> exchange_status (exchange w k) = NTP_OK
            \<and> (\<forall>j<k. exchange_status (exchange w j) \<noteq> NTP_OK)
          \<longrightarrow> ntp_sync_attempts w s = k + 1
            \<and> ntp_sync_response w s = snd (send_ntp_request (exchange w k) (stack_response w))
            \<and> ((li_vn_mode (ntp_sync_response w s) AND 7 = 4
                   \<or> li_vn_mode (ntp_sync_response w s) AND 7 = 2)
                 \<and> 1 \<le> stratum (ntp_sync_response w s)
                 \<and> stratum (ntp_sync_response w s) \<le> 15
               \<longrightarrow> fst (ntp_sync w s) = NTP_OK
                 \<and> ever_synced (snd (ntp_sync w s))
                 \<and> last_sync_time (snd (ntp_sync w s)) = tv_sec (local_time w)
                 \<and> time_offset (snd (ntp_sync w s))
                     = ntp_time_to_unix_time (tx_timestamp_sec (ntp_sync_response w s))
                         - tv_sec (local_time w)))
    \<and> ((\<forall>k<unat (retry_count (config s)). exchange_status (exchange w k) \<noteq> NTP_OK)
          \<longrightarrow> ntp_sync_attempts w s = unat (retry_count (config s))
            \<and> ntp_sync w s
                = (exchange_status (exchange w (unat (retry_count (config s)) - 1)), s))"
proof -
  let ?rc = "retry_count (config s)"
  have first: "ntp_sync_attempts w s = k + 1
      \<and> ntp_sync_response w s = snd (send_ntp_request (exchange w k) (stack_response w))
      \<and> ((li_vn_mode (ntp_sync_response w s) AND 7 = 4
             \<or> li_vn_mode (ntp_sync_response w s) AND 7 = 2)
           \<and> 1 \<le> stratum (ntp_sync_response w s)
           \<and> stratum (ntp_sync_response w s) \<le> 15
         \<longrightarrow> fst (ntp_sync w s) = NTP_OK
           \<and> ever_synced (snd (ntp_sync w s))
           \<and> last_sync_time (snd (ntp_sync w s)) = tv_sec (local_time w)
           \<and> time_offset (snd (ntp_sync w s))
               = ntp_time_to_unix_time (tx_timestamp_sec (ntp_sync_response w s))
                   - tv_sec (local_time w))"
    if k: "k < unat ?rc" "exchange_status (exchange w k) = NTP_OK"
      "\<forall>j<k. exchange_status (exchange w j) \<noteq> NTP_OK" for k
  proof -
    have loop: "ntp_sync_loop ?rc (exchange w) (stack_response w) 0
        = (NTP_OK, snd (send_ntp_request (exchange w k) (stack_response w)), of_nat (k + 1))"
      using k by (intro sync_loop_first_ok) simp_all
    have n: "unat (of_nat (k + 1) :: uint32_t) = k + 1"
      using k(1) unat_of_nat_below [where k = k and rc = ?rc] by simp
    have a: "ntp_sync_attempts w s = k + 1"
      using init n by (simp add: ntp_sync_attempts_def loop)
    have r: "ntp_sync_response w s = snd (send_ntp_request (exchange w k) (stack_response w))"
      by (simp add: ntp_sync_response_def loop)
    have v: "fst (ntp_sync w s) = NTP_OK
           \<and> ever_synced (snd (ntp_sync w s))
           \<and> last_sync_time (snd (ntp_sync w s)) = tv_sec (local_time w)
           \<and> time_offset (snd (ntp_sync w s))
               = ntp_time_to_unix_time (tx_timestamp_sec (ntp_sync_response w s))
                   - tv_sec (local_time w)"
      if "li_vn_mode (ntp_sync_response w s) AND 7 = 4
            \<or> li_vn_mode (ntp_sync_response w s) AND 7 = 2"
        and "1 \<le> stratum (ntp_sync_response w s)" and "stratum (ntp_sync_response w s) \<le> 15"
    proof -
      have "stratum (ntp_sync_response w s) \<noteq> 0" using that(2) by auto
      moreover have "\<not> 16 \<le> stratum (ntp_sync_response w s)"
        using that(3) by (simp add: word_le_nat_alt)
      ultimately show ?thesis
        using that(1) init unfolding r
        by (simp add: ntp_sync_def loop Let_def)
    qed
    show ?thesis using a r v by blast
  qed
  have fail: "ntp_sync_attempts w s = unat ?rc
      \<and> ntp_sync w s = (exchange_status (exchange w (unat ?rc - 1)), s)"
    if f: "\<forall>k<unat ?rc. exchange_status (exchange w k) \<noteq> NTP_OK"
  proof -
    have loop: "ntp_sync_loop ?rc (exchange w) (stack_response w) 0
        = (exchange_status (exchange w (unat ?rc - 1)), stack_response w, ?rc)"
      using f rc by (rule sync_loop_all_fail)
    have "0 < unat ?rc" using rc by (simp add: word_le_nat_alt)
    then have "exchange_status (exchange w (unat ?rc - 1)) \<noteq> NTP_OK" using f by simp
    then show ?thesis using init by (simp add: ntp_sync_attempts_def ntp_sync_def loop)
  qed
  have bound: "ntp_sync_attempts w s \<le> unat ?rc"
  proof (cases "\<exists>k<unat ?rc. exchange_status (exchange w k) = NTP_OK")
    case True
    from first_ok_exists [OF True] obtain k where "k < unat ?rc"
      "exchange_status (exchange w k) = NTP_OK"
      "\<forall>j<k. exchange_status (exchange w j) \<noteq> NTP_OK" by blast
    then show ?thesis using first [of k] by simp
  next
    case False
    then show ?thesis using fail by simp
  qed
  show ?thesis using bound first fail by blast
qed

text \<open>
  An exchange that times out twice and then succeeds: with a retry count of 3 the
  third exchange commits, with a retry count of 2 the timeout is returned after two
  exchanges and \<open>ever_synced\<close> stays false.
\<close>

theorem ntp_sync_retry_limit_witness:
  "fst (ntp_sync flaky_world (test_state 3)) = NTP_OK
     \<and> ever_synced (snd (ntp_sync flaky_world (test_state 3)))
     \<and> time_offset (snd (ntp_sync flaky_world (test_state 3))) = 5
     \<and> ntp_sync_attempts flaky_world (test_state 3) = 3
     \<and> ntp_sync flaky_world (test_state 2) = (NTP_ERROR_TIMEOUT, test_state 2)
     \<and> \<not> ever_synced (snd (ntp_sync flaky_world (test_state 2)))
     \<and> ntp_sync_attempts flaky_world (test_state 2) = 2"
proof -
  let ?r = "ntp_sync_response flaky_world (test_state 3)"
  note three = ntp_sync_retry_limit [where w = flaky_world and s = "test_state 3"]
  note two = ntp_sync_retry_limit [where w = flaky_world and s = "test_state 2"]
  have i3: "initialized (test_state 3)" and r3: "1 \<le> retry_count (config (test_state 3))"
    and i2: "initialized (test_state 2)" and r2: "1 \<le> retry_count (config (test_state 2))"
    by (simp_all add: test_state_fields)
  have k2: "(2::nat) < unat (retry_count (config (test_state 3)))
      \<and> exchange_status (exchange flaky_world 2) = NTP_OK
      \<and> (\<forall>j<2. exchange_status (exchange flaky_world j) \<noteq> NTP_OK)"
    by (simp add: test_state_fields flaky_status)
  from three [OF i3 r3] k2 have a3: "ntp_sync_attempts flaky_world (test_state 3) = 2 + 1"
    and resp: "?r = snd (send_ntp_request (exchange flaky_world 2) (stack_response flaky_world))"
    and commit: "(li_vn_mode ?r AND 7 = 4 \<or> li_vn_mode ?r AND 7 = 2)
           \<and> 1 \<le> stratum ?r \<and> stratum ?r \<le> 15
         \<longrightarrow> fst (ntp_sync flaky_world (test_state 3)) = NTP_OK
           \<and> ever_synced (snd (ntp_sync flaky_world (test_state 3)))
           \<and> last_sync_time (snd (ntp_sync flaky_world (test_state 3)))
               = tv_sec (local_time flaky_world)
           \<and> time_offset (snd (ntp_sync flaky_world (test_state 3)))
               = ntp_time_to_unix_time (tx_timestamp_sec ?r) - tv_sec (local_time flaky_world)"
    by blast+
  have f: "li_vn_mode ?r = 0x24" "stratum ?r = 2" "tx_timestamp_sec ?r = 3908988800"
    using flaky_response [OF resp [symmetric]] by simp_all
  have lt: "tv_sec (local_time flaky_world) = 1699999995"
    by (simp add: flaky_world_def)
  have ok: "fst (ntp_sync flaky_world (test_state 3)) = NTP_OK
      \<and> ever_synced (snd (ntp_sync flaky_world (test_state 3)))
      \<and> time_offset (snd (ntp_sync flaky_world (test_state 3))) = 5"
    using commit lt
    by (simp add: f ntp_time_to_unix_time_def NTP_TIMESTAMP_DELTA_def)
  have allfail: "\<forall>k<unat (retry_count (config (test_state 2))).
      exchange_status (exchange flaky_world k) \<noteq> NTP_OK"
    by (simp add: test_state_fields flaky_status)
  from two [OF i2 r2] allfail
  have a2: "ntp_sync_attempts flaky_world (test_state 2) = unat (retry_count (config (test_state 2)))"
    and s2: "ntp_sync flaky_world (test_state 2)
      = (exchange_status (exchange flaky_world (unat (retry_count (config (test_state 2))) - 1)),
         test_state 2)"
    by blast+
  have e2: "ntp_sync flaky_world (test_state 2) = (NTP_ERROR_TIMEOUT, test_state 2)"
    using s2 by (simp add: test_state_fields flaky_status)
  show ?thesis
    using ok a3 a2 e2 by (simp add: test_state_fields)
qed

text \<open>
  C3. \<^verbatim>\<open>ntp_sync\<close> returns \<^verbatim>\<open>NTP_OK\<close> only if the mode of the response (the low
  three bits of its first byte) is 4 or 2 and its stratum is between 1 and 15. When
  the first successful exchange, number \<open>k\<close>, brings a response that violates either
  condition, \<^verbatim>\<open>ntp_sync\<close> returns \<^verbatim>\<open>NTP_ERROR_SERVER\<close>, leaves the state as it
  was and has made \<open>k + 1\<close> exchanges: none after the rejected one, whatever the retry
  count.
\<close>

theorem ntp_sync_validation:
  "(fst (ntp_sync w s) = NTP_OK \<longrightarrow>
      (li_vn_mode (ntp_sync_response w s) AND 7 = 4
         \<or> li_vn_mode (ntp_sync_response w s) AND 7 = 2)
      \<and> 1 \<le> stratum (ntp_sync_response w s)
      \<and> stratum (ntp_sync_response w s) \<le> 15)
   \<and> (initialized s
        \<and> (k = 0 \<or> k < unat (retry_count (config s)))
        \<and> exchange_status (exchange w k) = NTP_OK
        \<and> (\<forall>j<k. exchange_status (exchange w j) \<noteq> NTP_OK)
        \<and> \<not> ((li_vn_mode (snd (send_ntp_request (exchange w k) (stack_response w))) AND 7 = 4
                 \<or> li_vn_mode (snd (send_ntp_request (exchange w k) (stack_response w))) AND 7 = 2)
               \<and> 1 \<le> stratum (snd (send_ntp_request (exchange w k) (stack_response w)))
               \<and> stratum (snd (send_ntp_request (exchange w k) (stack_response w))) \<le> 15)
      \<longrightarrow> ntp_sync w s = (NTP_ERROR_SERVER, s) \<and> ntp_sync_attempts w s = k + 1)"
proof (intro conjI impI)
  obtain st r n where loop:
    "ntp_sync_loop (retry_count (config s)) (exchange w) (stack_response w) 0 = (st, r, n)"
    by (cases "ntp_sync_loop (retry_count (config s)) (exchange w) (stack_response w) 0")
  have resp: "ntp_sync_response w s = r"
    by (simp add: ntp_sync_response_def loop)
  assume ok: "fst (ntp_sync w s) = NTP_OK"
  have init: "initialized s"
    by (rule ccontr) (use ok in \<open>simp add: ntp_sync_def\<close>)
  have m: "li_vn_mode r AND 7 = 4 \<or> li_vn_mode r AND 7 = 2"
    by (rule ccontr) (use ok init in \<open>simp add: ntp_sync_def loop split: if_splits\<close>)
  have "stratum r \<noteq> 0 \<and> \<not> 16 \<le> stratum r"
    by (rule ccontr) (use ok init in \<open>auto simp add: ntp_sync_def loop split: if_splits\<close>)
  then have "1 \<le> stratum r \<and> stratum r \<le> 15"
    by (simp only: stratum_range)
  then show "li_vn_mode (ntp_sync_response w s) AND 7 = 4
      \<or> li_vn_mode (ntp_sync_response w s) AND 7 = 2"
    and "1 \<le> stratum (ntp_sync_response w s)" and "stratum (ntp_sync_response w s) \<le> 15"
    using m by (simp_all add: resp)
next
  let ?r = "snd (send_ntp_request (exchange w k) (stack_response w))"
  assume a: "initialized s
        \<and> (k = 0 \<or> k < unat (retry_count (config s)))
        \<and> exchange_status (exchange w k) = NTP_OK
        \<and> (\<forall>j<k. exchange_status (exchange w j) \<noteq> NTP_OK)
        \<and> \<not> ((li_vn_mode ?r AND 7 = 4 \<or> li_vn_mode ?r AND 7 = 2)
               \<and> 1 \<le> stratum ?r \<and> stratum ?r \<le> 15)"
  then have loop: "ntp_sync_loop (retry_count (config s)) (exchange w) (stack_response w) 0
        = (NTP_OK, ?r, of_nat (k + 1))"
    by (intro sync_loop_first_ok) simp_all
  have n: "unat (of_nat (k + 1) :: uint32_t) = k + 1"
    using a unat_of_nat_below [where k = k and rc = "retry_count (config s)"] by simp
  have bad: "(li_vn_mode ?r AND 7 \<noteq> 4 \<and> li_vn_mode ?r AND 7 \<noteq> 2)
      \<or> stratum ?r = 0 \<or> 16 \<le> stratum ?r"
    using a stratum_range [of "stratum ?r"] by blast
  show "ntp_sync w s = (NTP_ERROR_SERVER, s)"
    using a bad by (auto simp add: ntp_sync_def loop)
  show "ntp_sync_attempts w s = k + 1"
    using a n by (simp add: ntp_sync_attempts_def loop)
qed

text \<open>
  A first response with stratum 0: one exchange and \<^verbatim>\<open>NTP_ERROR_SERVER\<close>, for
  every retry count.
\<close>

theorem ntp_sync_validation_witness:
  "\<forall>rc. ntp_sync stratum0_world (test_state rc) = (NTP_ERROR_SERVER, test_state rc)
          \<and> ntp_sync_attempts stratum0_world (test_state rc) = 1"
proof
  fix rc
  let ?d = "server_datagram 0 0xE8 0xFE 0x6F 0x80"
  let ?r = "snd (send_ntp_request (exchange stratum0_world 0) (stack_response stratum0_world))"
  have e: "exchange stratum0_world 0 = good_syscalls ?d"
    by (simp add: stratum0_world_def)
  have "send_ntp_request (good_syscalls ?d) (stack_response stratum0_world) = (NTP_OK, ?r)"
    using send_ok_eq [OF good_status, of ?d "stack_response stratum0_world"] e by simp
  from recv_server_datagram [OF this] have st: "stratum ?r = 0" by simp
  have es: "exchange_status (exchange stratum0_world 0) = NTP_OK"
    by (simp add: e good_status)
  have "initialized (test_state rc)
        \<and> ((0::nat) = 0 \<or> 0 < unat (retry_count (config (test_state rc))))
        \<and> exchange_status (exchange stratum0_world 0) = NTP_OK
        \<and> (\<forall>j<0. exchange_status (exchange stratum0_world j) \<noteq> NTP_OK)
        \<and> \<not> ((li_vn_mode ?r AND 7 = 4 \<or> li_vn_mode ?r AND 7 = 2)
               \<and> 1 \<le> stratum ?r \<and> stratum ?r \<le> 15)"
    by (simp add: test_state_fields es st)
  with ntp_sync_validation [where w = stratum0_world and s = "test_state rc" and k = 0]
  show "ntp_sync stratum0_world (test_state rc) = (NTP_ERROR_SERVER, test_state rc)
          \<and> ntp_sync_attempts stratum0_world (test_state rc) = 1"
    by simp
qed

text \<open>
  C4, as stated, fails. \<^verbatim>\<open>unix_time_to_ntp_time\<close> returns \<^verbatim>\<open>uint32_t\<close>: the sum
  \<open>t + 2208988800\<close> is reduced modulo \<open>2^32\<close>. The Unix time \<open>2085978496\<close>
  (7 February 2036, the first second of NTP era 1) is a \<^verbatim>\<open>time_t\<close> value whose NTP
  seconds are 0, and it does not come back.
\<close>

theorem unix_ntp_roundtrip_counterexample:
  "ntp_time_to_unix_time (unix_time_to_ntp_time 2085978496) \<noteq> 2085978496"
  by (simp add: ntp_time_to_unix_time_def unix_time_to_ntp_time_def NTP_TIMESTAMP_DELTA_def)

text \<open>
  C4, amended. For every Unix time \<open>t\<close> from \<open>-2208988800\<close> to \<open>2085978495\<close>, the
  times whose NTP seconds fit the 32-bit field, \<^verbatim>\<open>unix_time_to_ntp_time\<close> is exactly
  \<open>t + 2208988800\<close> and converting back gives \<open>t\<close>; \<^verbatim>\<open>ntp_time_to_unix_time\<close> is
  exactly \<open>s - 2208988800\<close> for every 32-bit \<open>s\<close>. For every Unix time \<open>u\<close>, inside
  that range or not, \<^verbatim>\<open>unix_time_to_ntp_time\<close> is \<open>u + 2208988800\<close> reduced modulo
  \<open>2^32\<close>.
\<close>

theorem unix_ntp_roundtrip_in_era:
  fixes t u :: time_t and s :: uint32_t
  assumes "- 2208988800 \<le> sint t" and "sint t \<le> 2085978495"
  shows "ntp_time_to_unix_time (unix_time_to_ntp_time t) = t
     \<and> uint (unix_time_to_ntp_time t) = sint t + 2208988800
     \<and> sint (ntp_time_to_unix_time s) = uint s - 2208988800
     \<and> uint (unix_time_to_ntp_time u) = (sint u + 2208988800) mod 2 ^ 32"
  using unix_time_in_era [OF assms] sint_ntp_time_to_unix_time [of s]
    uint_unix_time_to_ntp_time [of u]
  by simp

text \<open>
  The amended law at Unix time \<open>1700000000\<close>, NTP time \<open>3908988800\<close>, and the
  reduction at Unix time \<open>2085978496\<close>, whose NTP seconds are 0.
\<close>

theorem unix_ntp_roundtrip_in_era_witness:
  "- 2208988800 \<le> sint (1700000000 :: time_t) \<and> sint (1700000000 :: time_t) \<le> 2085978495
     \<and> ntp_time_to_unix_time (unix_time_to_ntp_time 1700000000) = 1700000000
     \<and> unix_time_to_ntp_time 1700000000 = 3908988800
     \<and> ntp_time_to_unix_time 3908988800 = 1700000000
     \<and> uint (unix_time_to_ntp_time 2085978496) = 0"
proof -
  have lo: "- 2208988800 \<le> sint (1700000000 :: time_t)"
    and hi: "sint (1700000000 :: time_t) \<le> 2085978495"
    by simp_all
  note t = unix_ntp_roundtrip_in_era [OF lo hi, of 3908988800 2085978496]
  from t have "ntp_time_to_unix_time (unix_time_to_ntp_time 1700000000) = 1700000000"
    by blast
  moreover from t have "uint (unix_time_to_ntp_time 2085978496)
      = (sint (2085978496 :: time_t) + 2208988800) mod 2 ^ 32"
    by blast
  then have "uint (unix_time_to_ntp_time 2085978496) = 0" by simp
  moreover have "unix_time_to_ntp_time 1700000000 = 3908988800"
    by (simp add: unix_time_to_ntp_time_def NTP_TIMESTAMP_DELTA_def)
  ultimately show ?thesis using lo hi by simp
qed


text \<open>
  C5 says that the lock is never held during network I/O. In the code the lock taken
  on entry of \<^verbatim>\<open>ntp_sync\<close> is still held when \<^verbatim>\<open>send_ntp_request\<close> is called:
  for every initialised state, and whatever the network answers, the trace of
  \<^verbatim>\<open>ntp_sync\<close> has a network call made while the lock is held. The lock is released
  only around the 500 ms pause between attempts and before returning.
\<close>

theorem ntp_sync_exchange_under_lock:
  assumes "initialized s"
  shows "io_while_locked False (ntp_sync_events w s)"
proof -
  obtain es where
    "ntp_sync_loop_events (retry_count (config s)) (exchange w) (stack_response w) 0
       = Network_IO # es"
    using loop_events_first by blast
  then show ?thesis using assms by (simp add: ntp_sync_events_def)
qed

text \<open>
  The trace for an exchange that times out twice and then succeeds, with a retry
  count of 3: each of the three exchanges follows a lock with no unlock in between.
\<close>

theorem ntp_sync_exchange_under_lock_witness:
  "ntp_sync_events flaky_world (test_state 3)
       = [Lock, Network_IO, Unlock, Sleep, Lock, Network_IO, Unlock, Sleep, Lock, Network_IO, Unlock]
     \<and> io_while_locked False (ntp_sync_events flaky_world (test_state 3))"
proof -
  let ?net = "exchange flaky_world"
  have s0: "exchange_status (?net (unat (0 :: uint32_t))) \<noteq> NTP_OK"
    and s1: "exchange_status (?net (unat (0 + 1 :: uint32_t))) \<noteq> NTP_OK"
    and s2: "exchange_status (?net (unat (0 + 1 + 1 :: uint32_t))) = NTP_OK"
    by (simp_all add: flaky_status)
  have l0: "(0 :: uint32_t) + 1 < 3" and l1: "(0 :: uint32_t) + 1 + 1 < 3" by simp_all
  have "ntp_sync_loop_events 3 ?net (stack_response flaky_world) 0
      = [Network_IO, Unlock, Sleep, Lock] @ [Network_IO, Unlock, Sleep, Lock] @ [Network_IO]"
    using loop_events_fail_step [where net = ?net and a = 0 and retry = 3
        and r = "stack_response flaky_world"]
      loop_events_fail_step [where net = ?net and a = "0 + 1" and retry = 3
        and r = "stack_response flaky_world"]
      loop_events_ok [where net = ?net and a = "0 + 1 + 1" and retry = 3
        and r = "stack_response flaky_world"]
      s0 s1 s2 l0 l1
    by simp
  then have "ntp_sync_events flaky_world (test_state 3)
       = [Lock, Network_IO, Unlock, Sleep, Lock, Network_IO, Unlock, Sleep, Lock, Network_IO, Unlock]"
    by (simp add: ntp_sync_events_def test_state_fields)
  moreover have "io_while_locked False (ntp_sync_events flaky_world (test_state 3))"
    using ntp_sync_exchange_under_lock [of "test_state 3" flaky_world]
    by (simp add: test_state_fields)
  ultimately show ?thesis by simp
qed

text \<open>
  C6, as stated, fails: \<^verbatim>\<open>ntp_status_t\<close> has no status for a failed resolution. When
  \<^verbatim>\<open>getaddrinfo\<close> fails, \<^verbatim>\<open>send_ntp_request\<close> and \<^verbatim>\<open>ntp_sync\<close> return
  \<^verbatim>\<open>NTP_ERROR_NETWORK\<close>, the status of every other socket failure.
\<close>

theorem resolution_failure_counterexample:
  "\<not> resolve_hostname unresolved_syscalls
     \<and> fst (send_ntp_request unresolved_syscalls zero_packet) = NTP_ERROR_NETWORK
     \<and> fst (ntp_sync unresolved_world (test_state 3)) = NTP_ERROR_NETWORK"
proof -
  have u: "\<not> resolve_hostname unresolved_syscalls"
    by (simp add: resolve_hostname_def unresolved_syscalls_def)
  have st: "exchange_status unresolved_syscalls = NTP_ERROR_NETWORK"
    by (simp add: exchange_status_def unresolved_fails [OF u])
  have "\<forall>k. exchange_status (exchange unresolved_world k) \<noteq> NTP_OK"
    by (simp add: unresolved_world_def st)
  from sync_every_exchange_fails [OF _ this, of "test_state 3"]
  have "fst (ntp_sync unresolved_world (test_state 3)) = NTP_ERROR_NETWORK"
    by (simp add: test_state_fields unresolved_world_def st)
  then show ?thesis using u by (simp add: unresolved_fails [OF u])
qed

text \<open>
  C6, amended. When the name of the server does not resolve, the exchange fails with
  \<^verbatim>\<open>NTP_ERROR_NETWORK\<close> and leaves the response struct as it was; when it resolves
  in no attempt, \<^verbatim>\<open>ntp_sync\<close> on an initialised state returns
  \<^verbatim>\<open>NTP_ERROR_NETWORK\<close> and leaves the state as it was.
\<close>

theorem resolution_failure_is_network_error:
  "(\<not> resolve_hostname sys \<longrightarrow> send_ntp_request sys r = (NTP_ERROR_NETWORK, r))
   \<and> (initialized s \<and> (\<forall>k. \<not> resolve_hostname (exchange w k))
        \<longrightarrow> ntp_sync w s = (NTP_ERROR_NETWORK, s))"
proof (intro conjI impI)
  assume "\<not> resolve_hostname sys"
  then show "send_ntp_request sys r = (NTP_ERROR_NETWORK, r)" by (rule unresolved_fails)
next
  assume a: "initialized s \<and> (\<forall>k. \<not> resolve_hostname (exchange w k))"
  then have st: "exchange_status (exchange w k) = NTP_ERROR_NETWORK" for k
    by (simp add: exchange_status_def unresolved_fails)
  then have "\<forall>k. exchange_status (exchange w k) \<noteq> NTP_OK" by simp
  from sync_every_exchange_fails [OF _ this, of s] a
  show "ntp_sync w s = (NTP_ERROR_NETWORK, s)" by (simp add: st)
qed

text \<open>The amended claim for a name that never resolves, with a retry count of 3.\<close>

theorem resolution_failure_is_network_error_witness:
  "\<not> resolve_hostname unresolved_syscalls
     \<and> send_ntp_request unresolved_syscalls zero_packet = (NTP_ERROR_NETWORK, zero_packet)
     \<and> initialized (test_state 3)
     \<and> (\<forall>k. \<not> resolve_hostname (exchange unresolved_world k))
     \<and> ntp_sync unresolved_world (test_state 3) = (NTP_ERROR_NETWORK, test_state 3)"
proof -
  have u: "\<not> resolve_hostname unresolved_syscalls"
    by (simp add: resolve_hostname_def unresolved_syscalls_def)
  have all: "\<forall>k. \<not> resolve_hostname (exchange unresolved_world k)"
    by (simp add: unresolved_world_def u)
  have i: "initialized (test_state 3)" by (simp add: test_state_fields)
  note t = resolution_failure_is_network_error
    [where sys = unresolved_syscalls and r = zero_packet and s = "test_state 3"
      and w = unresolved_world]
  from t u have "send_ntp_request unresolved_syscalls zero_packet = (NTP_ERROR_NETWORK, zero_packet)"
    by blast
  moreover from t i all
  have "ntp_sync unresolved_world (test_state 3) = (NTP_ERROR_NETWORK, test_state 3)"
    by blast
  ultimately show ?thesis using u i all by blast
qed

text \<open>
  C7 says that a datagram shorter than 48 bytes is rejected with a network error. The
  code checks only that \<^verbatim>\<open>recvfrom\<close> did not return a negative value. A datagram of
  the two bytes \<open>0x24 0x01\<close> (server mode, stratum 1) is accepted: the exchange returns
  \<^verbatim>\<open>NTP_OK\<close>, the transmit seconds are read from what the uninitialised struct
  held before the call, and \<^verbatim>\<open>ntp_sync\<close> commits an offset computed from them.
\<close>

theorem short_datagram_accepted:
  "fst (send_ntp_request (good_syscalls [0x24, 0x01]) r) = NTP_OK
     \<and> tx_timestamp_sec (snd (send_ntp_request (good_syscalls [0x24, 0x01]) r))
           = ntohl (tx_timestamp_sec r)
     \<and> fst (ntp_sync (short_world r) (test_state 3)) = NTP_OK
     \<and> ever_synced (snd (ntp_sync (short_world r) (test_state 3)))
     \<and> time_offset (snd (ntp_sync (short_world r) (test_state 3)))
           = ntp_time_to_unix_time (ntohl (tx_timestamp_sec r)) - 1700000000"
proof -
  let ?sys = "good_syscalls [0x24, 0x01]"
  obtain r' where r': "send_ntp_request ?sys r = (NTP_OK, r')"
    using send_ok_eq [OF good_status] by blast
  note f = recv_short_datagram [OF r']
  have ex: "exchange (short_world r) = (\<lambda>k. ?sys)"
    and sr: "stack_response (short_world r) = r"
    and lt: "tv_sec (local_time (short_world r)) = 1700000000"
    by (simp_all add: short_world_def)
  have loop: "ntp_sync_loop 3 (exchange (short_world r)) (stack_response (short_world r)) 0
      = (NTP_OK, r', 1)"
    using first_exchange_ok [of "short_world r" 3] by (simp add: ex sr good_status r')
  have "ntp_sync (short_world r) (test_state 3) =
      (NTP_OK, (test_state 3)\<lparr>
         time_offset := ntp_time_to_unix_time (ntohl (tx_timestamp_sec r)) - 1700000000,
         last_sync_time := 1700000000,
         ntp_time := ntp_time_to_unix_time (ntohl (tx_timestamp_sec r)),
         ever_synced := True \<rparr>)"
    by (simp add: ntp_sync_def test_state_fields loop f lt Let_def word_le_nat_alt)
  then show ?thesis using f by (simp add: r')
qed

text \<open>
  C8 says that the hundredths are in \<open>[0, 99]\<close> for every synced state. After a sync
  with a server whose transmit seconds are 0, taken when the local clock reads
  \<open>1700000000\<close>, the offset is \<open>-3908988800\<close>; when the local clock then reads
  \<open>1700000000.5\<close> the adjusted time is \<open>-2208988799.5\<close>, its fractional part after
  truncation towards zero is \<open>-0.5\<close>, and \<^verbatim>\<open>ntp_getCurrentHundredths\<close> returns
  \<open>-50\<close>. Every intermediate value is a binary fraction that a \<^verbatim>\<open>double\<close> holds
  exactly.
\<close>

theorem hundredths_negative:
  "fst (ntp_sync zero_tx_world (test_state 3)) = NTP_OK
     \<and> ntp_hasEverSynced (snd (ntp_sync zero_tx_world (test_state 3)))
     \<and> ntp_getCurrentTimeWithMicros (snd (ntp_sync zero_tx_world (test_state 3)))
           \<lparr> tv_sec = 1700000000, tv_usec = 500000 \<rparr> = - 2208988799.5
     \<and> ntp_getCurrentHundredths (snd (ntp_sync zero_tx_world (test_state 3)))
           \<lparr> tv_sec = 1700000000, tv_usec = 500000 \<rparr> = - 50"
  by (simp add: zero_tx_sync test_state_fields ntp_hasEverSynced_def
      ntp_getCurrentHundredths_def ntp_getCurrentTimeWithMicros_def Let_def c_trunc_def c_rem_def)

text \<open>The value returned at that input is outside \<open>[0, 99]\<close>.\<close>

theorem hundredths_negative_witness:
  "\<not> (0 \<le> ntp_getCurrentHundredths (snd (ntp_sync zero_tx_world (test_state 3)))
              \<lparr> tv_sec = 1700000000, tv_usec = 500000 \<rparr>
        \<and> ntp_getCurrentHundredths (snd (ntp_sync zero_tx_world (test_state 3)))
              \<lparr> tv_sec = 1700000000, tv_usec = 500000 \<rparr> \<le> 99)"
proof -
  have "ntp_getCurrentHundredths (snd (ntp_sync zero_tx_world (test_state 3)))
          \<lparr> tv_sec = 1700000000, tv_usec = 500000 \<rparr> = - 50"
    using hundredths_negative by blast
  then show ?thesis by simp
qed

text \<open>
  C9. When \<open>initialized\<close> is false, whatever \<open>ever_synced\<close> is,
  \<^verbatim>\<open>ntp_getCurrentTime\<close> returns 0, \<^verbatim>\<open>ntp_getTimeSinceLastSync\<close> returns \<open>-1\<close> and
  \<^verbatim>\<open>ntp_hasEverSynced\<close> returns false; the sub-second queries return 0 and
  \<^verbatim>\<open>ntp_getServerName\<close> returns false as well.
\<close>

theorem queries_guard_on_initialized:
  assumes "\<not> initialized s"
  shows "ntp_getCurrentTime s tv = 0
     \<and> ntp_getTimeSinceLastSync s tv = - 1
     \<and> \<not> ntp_hasEverSynced s
     \<and> ntp_getCurrentTimeWithMicros s tv = 0
     \<and> ntp_getCurrentHundredths s tv = 0
     \<and> fst (ntp_getServerName s behind buffer buffer_size) = False"
  using assms
  by (simp add: ntp_getCurrentTime_def ntp_getTimeSinceLastSync_def ntp_hasEverSynced_def
      ntp_getCurrentTimeWithMicros_def ntp_getCurrentHundredths_def ntp_getServerName_def
      split: option.splits)

text \<open>
  After a successful sync followed by \<^verbatim>\<open>ntp_cleanup\<close>, \<open>ever_synced\<close> is still true
  and the queries answer as for a client that never synced.
\<close>

theorem queries_guard_on_initialized_witness:
  "ever_synced (ntp_cleanup (snd (ntp_sync scenario_world (test_state 3))))
     \<and> \<not> initialized (ntp_cleanup (snd (ntp_sync scenario_world (test_state 3))))
     \<and> ntp_getCurrentTime (ntp_cleanup (snd (ntp_sync scenario_world (test_state 3))))
           \<lparr> tv_sec = 1699999999, tv_usec = 0 \<rparr> = 0
     \<and> ntp_getTimeSinceLastSync (ntp_cleanup (snd (ntp_sync scenario_world (test_state 3))))
           \<lparr> tv_sec = 1699999999, tv_usec = 0 \<rparr> = - 1
     \<and> \<not> ntp_hasEverSynced (ntp_cleanup (snd (ntp_sync scenario_world (test_state 3))))"
proof -
  let ?s = "ntp_cleanup (snd (ntp_sync scenario_world (test_state 3)))"
  have e: "ever_synced ?s" and i: "\<not> initialized ?s"
    by (simp_all add: ntp_cleanup_def scenario_sync)
  from queries_guard_on_initialized [OF i, where tv = "\<lparr> tv_sec = 1699999999, tv_usec = 0 \<rparr>"]
  show ?thesis using e i by blast
qed


text \<open>
  C10. \<^verbatim>\<open>ntp_getServerName\<close> returns false and leaves the buffer as it was when the
  pointer is null or the size is 0. When it returns true, the byte at index
  \<open>buffer_size - 1\<close> is null, so the string in the buffer ends within the buffer; that
  string is the string at \<^verbatim>\<open>client_state.config.server_name\<close> cut to at most
  \<open>buffer_size - 1\<close> characters, and the memory behind the first \<open>buffer_size\<close> bytes
  is untouched. When the name array holds a null byte, or \<open>buffer_size - 1\<close> is at
  most the length of the array, the string copied is the configured name cut to
  \<open>buffer_size - 1\<close> characters.
\<close>

theorem server_name_buffer:
  "(buffer = None \<or> buffer_size = 0
      \<longrightarrow> ntp_getServerName s behind buffer buffer_size = (False, buffer))
   \<and> (ntp_getServerName s behind (Some mem) buffer_size = (True, Some mem')
      \<longrightarrow> 0 < buffer_size
        \<and> mem' ! (buffer_size - 1) = 0
        \<and> length (takeWhile (\<lambda>c. c \<noteq> 0) mem') < buffer_size
        \<and> takeWhile (\<lambda>c. c \<noteq> 0) mem'
             = takeWhile (\<lambda>c. c \<noteq> 0)
                 (map (memory_from
                         (server_name (config s) @ store16 (server_port (config s))) behind)
                    [0..<buffer_size - 1])
        \<and> (0 \<in> set (server_name (config s))
               \<or> buffer_size - 1 \<le> length (server_name (config s))
             \<longrightarrow> takeWhile (\<lambda>c. c \<noteq> 0) mem'
                   = take (buffer_size - 1)
                       (takeWhile (\<lambda>c. c \<noteq> 0) (server_name (config s))))
        \<and> drop buffer_size mem' = drop buffer_size mem
        \<and> (buffer_size \<le> length mem \<longrightarrow> length mem' = length mem))"
proof (intro conjI impI)
  assume "buffer = None \<or> buffer_size = 0"
  then show "ntp_getServerName s behind buffer buffer_size = (False, buffer)"
    by (auto simp add: ntp_getServerName_def split: option.splits)
next
  let ?name = "server_name (config s)"
  let ?src = "memory_from (?name @ store16 (server_port (config s))) behind"
  let ?n = "buffer_size - 1"
  assume a: "ntp_getServerName s behind (Some mem) buffer_size = (True, Some mem')"
  then have pos: "0 < buffer_size"
    and m: "mem' = strncpy_bytes ?src 0 ?n @ [0] @ drop buffer_size mem"
    by (auto simp add: ntp_getServerName_def split: if_splits)
  show "0 < buffer_size" by (rule pos)
  show "mem' ! (buffer_size - 1) = 0"
    by (simp add: m nth_append strncpy_bytes_length)
  show c: "takeWhile (\<lambda>c. c \<noteq> 0) mem' = takeWhile (\<lambda>c. c \<noteq> 0) (map ?src [0..<?n])"
    using strncpy_bytes_cstring [of ?src 0 ?n "drop buffer_size mem"] by (simp add: m)
  have "length (takeWhile (\<lambda>c. c \<noteq> 0) (map ?src [0..<?n])) \<le> length (map ?src [0..<?n])"
    by (rule length_takeWhile_le)
  then show "length (takeWhile (\<lambda>c. c \<noteq> 0) mem') < buffer_size"
    using pos by (simp add: c)
  show "takeWhile (\<lambda>c. c \<noteq> 0) mem' = take ?n (takeWhile (\<lambda>c. c \<noteq> 0) ?name)"
    if "0 \<in> set ?name \<or> ?n \<le> length ?name"
    using cstring_of_name_memory [OF that, of "store16 (server_port (config s))" behind]
    by (simp only: c)
  show "drop buffer_size mem' = drop buffer_size mem"
    using pos by (simp add: m strncpy_bytes_length)
  show "length mem' = length mem" if "buffer_size \<le> length mem"
    using pos that by (simp add: m strncpy_bytes_length)
qed

text \<open>
  The name \<^verbatim>\<open>test.local\<close> copied into a buffer of size 5 in a memory of 8 bytes gives
  \<^verbatim>\<open>test\<close>, a null byte, and the last three bytes as they were.
\<close>

theorem server_name_buffer_witness:
  "ntp_getServerName (snd (ntp_sync scenario_world (test_state 3))) (\<lambda>i. 0) None 5
         = (False, None)
     \<and> ntp_getServerName (snd (ntp_sync scenario_world (test_state 3))) (\<lambda>i. 0)
           (Some [0xFF, 0xFF, 0xFF, 0xFF, 0xFF, 0xFF, 0xFF, 0xFF]) 0
         = (False, Some [0xFF, 0xFF, 0xFF, 0xFF, 0xFF, 0xFF, 0xFF, 0xFF])
     \<and> ntp_getServerName (snd (ntp_sync scenario_world (test_state 3))) (\<lambda>i. 0)
           (Some [0xFF, 0xFF, 0xFF, 0xFF, 0xFF, 0xFF, 0xFF, 0xFF]) 5
         = (True, Some [0x74, 0x65, 0x73, 0x74, 0, 0xFF, 0xFF, 0xFF])
     \<and> 0 \<in> set (server_name (config (snd (ntp_sync scenario_world (test_state 3)))))
     \<and> [0x74, 0x65, 0x73, 0x74, 0, 0xFF, 0xFF, 0xFF] ! (5 - 1) = (0 :: uint8_t)
     \<and> takeWhile (\<lambda>c. c \<noteq> 0) [0x74, 0x65, 0x73, 0x74, 0, 0xFF, 0xFF, 0xFF :: uint8_t]
         = take (5 - 1) (takeWhile (\<lambda>c. c \<noteq> 0)
             (server_name (config (snd (ntp_sync scenario_world (test_state 3))))))"
proof -
  let ?s = "snd (ntp_sync scenario_world (test_state 3))"
  let ?mem = "[0xFF, 0xFF, 0xFF, 0xFF, 0xFF, 0xFF, 0xFF, 0xFF] :: uint8_t list"
  let ?mem' = "[0x74, 0x65, 0x73, 0x74, 0, 0xFF, 0xFF, 0xFF] :: uint8_t list"
  have cfg: "config ?s = config (test_state 3)"
    and sy: "initialized ?s" "ever_synced ?s"
    by (simp_all add: scenario_sync test_state_fields)
  have copy: "ntp_getServerName ?s (\<lambda>i. 0) (Some ?mem) 5 = (True, Some ?mem')"
    by (simp add: ntp_getServerName_def sy cfg strncpy_bytes_4 test_name_memory)
  have z: "0 \<in> set (server_name (config ?s))"
    by (simp add: cfg test_state_fields)
  note t = server_name_buffer
  from t [where buffer = None and buffer_size = 5 and s = ?s and behind = "\<lambda>i. 0"]
  have a: "ntp_getServerName ?s (\<lambda>i. 0) None 5 = (False, None)" by simp
  from t [where buffer = "Some ?mem" and buffer_size = 0 and s = ?s and behind = "\<lambda>i. 0"]
  have b: "ntp_getServerName ?s (\<lambda>i. 0) (Some ?mem) 0 = (False, Some ?mem)" by simp
  from t [where mem = ?mem and buffer_size = 5 and s = ?s and mem' = ?mem'
      and behind = "\<lambda>i. 0"] copy z
  have c: "?mem' ! (5 - 1) = 0
      \<and> takeWhile (\<lambda>c. c \<noteq> 0) ?mem'
           = take (5 - 1) (takeWhile (\<lambda>c. c \<noteq> 0) (server_name (config ?s)))"
    by blast
  show ?thesis using a b c copy z by blast
qed

end
